theory Spec2Isabelle
  imports Complex_Main "HOL-Library.AList"
begin

section \<open>JavaScript values\<close>

text \<open>
  A JavaScript number is modelled as an exact rational, or one of the three values that
  are not finite. Arithmetic on finite numbers is exact here, where the program rounds to
  a double; negative zero is not told apart from zero.
\<close>

datatype number = Fin rat | PosInf | NegInf | NaN

text \<open>
  The values \<^verbatim>\<open>JSON.parse\<close> can return, which are also the values an analysis
  object holds. An object is the list of its own properties in insertion order; an absent
  property reads as \<^verbatim>\<open>undefined\<close>, here \<open>None\<close>. JavaScript enumerates the keys that
  are array indices before the others; the list does not, and nothing below reads the
  order of an object's keys but \<open>object_entries\<close>, which sorts them so.
\<close>

datatype jsval =
    JNull
  | JBool bool
  | JNum number
  | JStr string
  | JArr "jsval list"
  | JObj "(string \<times> jsval) list"

type_synonym obj = "(string \<times> jsval) list"

text \<open>\<^verbatim>\<open>a + b\<close> on numbers.\<close>

fun js_add :: "number \<Rightarrow> number \<Rightarrow> number" where
  "js_add (Fin a) (Fin b) = Fin (a + b)"
| "js_add NaN _ = NaN"
| "js_add _ NaN = NaN"
| "js_add PosInf NegInf = NaN"
| "js_add NegInf PosInf = NaN"
| "js_add PosInf _ = PosInf"
| "js_add _ PosInf = PosInf"
| "js_add NegInf _ = NegInf"
| "js_add _ NegInf = NegInf"

text \<open>\<^verbatim>\<open>a / b\<close> for a finite divisor \<open>b\<close>: dividing by zero is not an error in
  JavaScript, it gives \<^verbatim>\<open>NaN\<close> or an infinity.\<close>

fun js_div :: "number \<Rightarrow> rat \<Rightarrow> number" where
  "js_div (Fin a) b =
     (if b \<noteq> 0 then Fin (a / b)
      else if a = 0 then NaN
      else if 0 < a then PosInf else NegInf)"
| "js_div PosInf b = (if 0 \<le> b then PosInf else NegInf)"
| "js_div NegInf b = (if 0 \<le> b then NegInf else PosInf)"
| "js_div NaN b = NaN"

text \<open>\<^verbatim>\<open>a * c\<close> for a finite factor \<open>c\<close>.\<close>

fun js_mul :: "number \<Rightarrow> rat \<Rightarrow> number" where
  "js_mul (Fin a) c = Fin (a * c)"
| "js_mul PosInf c = (if 0 < c then PosInf else if c < 0 then NegInf else NaN)"
| "js_mul NegInf c = (if 0 < c then NegInf else if c < 0 then PosInf else NaN)"
| "js_mul NaN c = NaN"

text \<open>\<^verbatim>\<open>Math.min(a, c)\<close> for a finite \<open>c\<close>.\<close>

fun js_min :: "number \<Rightarrow> rat \<Rightarrow> number" where
  "js_min (Fin a) c = Fin (min a c)"
| "js_min PosInf c = Fin c"
| "js_min NegInf c = NegInf"
| "js_min NaN c = NaN"

text \<open>The comparisons \<^verbatim>\<open>a > c\<close>, \<^verbatim>\<open>a >= c\<close>, \<^verbatim>\<open>a <= c\<close> and \<^verbatim>\<open>a < c\<close>
  with a finite \<open>c\<close>: every comparison with \<^verbatim>\<open>NaN\<close> is false.\<close>

fun js_gt :: "number \<Rightarrow> rat \<Rightarrow> bool" where
  "js_gt (Fin a) c = (c < a)"
| "js_gt PosInf c = True"
| "js_gt NegInf c = False"
| "js_gt NaN c = False"

fun js_ge :: "number \<Rightarrow> rat \<Rightarrow> bool" where
  "js_ge (Fin a) c = (c \<le> a)"
| "js_ge PosInf c = True"
| "js_ge NegInf c = False"
| "js_ge NaN c = False"

fun js_le :: "number \<Rightarrow> rat \<Rightarrow> bool" where
  "js_le (Fin a) c = (a \<le> c)"
| "js_le PosInf c = False"
| "js_le NegInf c = True"
| "js_le NaN c = False"

fun js_lt :: "number \<Rightarrow> rat \<Rightarrow> bool" where
  "js_lt (Fin a) c = (a < c)"
| "js_lt PosInf c = False"
| "js_lt NegInf c = True"
| "js_lt NaN c = False"

text \<open>Whether a number is finite.\<close>

definition is_finite :: "number \<Rightarrow> bool" where
  "is_finite n = (case n of Fin r \<Rightarrow> True | _ \<Rightarrow> False)"

text \<open>
  Reading a numeric property, as \<^verbatim>\<open>analysis.riskScore\<close> is read in arithmetic and in
  comparisons. An absent property is \<^verbatim>\<open>undefined\<close>, which converts to \<^verbatim>\<open>NaN\<close>.
  Every analysis that reaches a reader holds a number under \<^verbatim>\<open>riskScore\<close> (the
  validation and the fallback see to it), so the conversions of other kinds of value are
  not modelled: they read as \<^verbatim>\<open>NaN\<close> too.
\<close>

definition num_prop :: "obj \<Rightarrow> string \<Rightarrow> number" where
  "num_prop a k = (case map_of a k of Some (JNum n) \<Rightarrow> n | _ \<Rightarrow> NaN)"

subsection \<open>Strings\<close>

text \<open>\<^verbatim>\<open>String.prototype.toLowerCase\<close> on the ASCII letters; other characters are
  kept.\<close>

definition lower_char :: "char \<Rightarrow> char" where
  "lower_char c =
     (case map_of (zip ''ABCDEFGHIJKLMNOPQRSTUVWXYZ'' ''abcdefghijklmnopqrstuvwxyz'') c of
        Some l \<Rightarrow> l
      | None \<Rightarrow> c)"

definition toLowerCase :: "string \<Rightarrow> string" where
  "toLowerCase s = map lower_char s"

fun starts_with :: "string \<Rightarrow> string \<Rightarrow> bool" where
  "starts_with s [] = True"
| "starts_with [] (c # t) = False"
| "starts_with (a # s) (c # t) = (a = c \<and> starts_with s t)"

text \<open>\<^verbatim>\<open>s.includes(t)\<close>: \<open>t\<close> occurs in \<open>s\<close> as a contiguous substring.\<close>

fun str_includes :: "string \<Rightarrow> string \<Rightarrow> bool" where
  "str_includes [] t = (t = [])"
| "str_includes (a # s) t = (starts_with (a # s) t \<or> str_includes s t)"

text \<open>
  \<^verbatim>\<open>riskMerchants.some(risk => transaction.merchant.toLowerCase().includes(risk))\<close>, as
  both scorers call it on the merchant of the request. Only a string has the method
  \<^verbatim>\<open>toLowerCase\<close>: on any other value the first call throws a \<^verbatim>\<open>TypeError\<close>.
\<close>

datatype error = OracleError | SyntaxError | TypeError | InvalidFormat

definition merchantMatches :: "jsval \<Rightarrow> string list \<Rightarrow> error + bool" where
  "merchantMatches m riskMerchants =
     (if riskMerchants = [] then Inr False
      else (case m of
              JStr name \<Rightarrow> Inr (list_ex (\<lambda>risk. str_includes (toLowerCase name) risk) riskMerchants)
            | _ \<Rightarrow> Inl TypeError))"

text \<open>The decimal digits of a natural number and of an integer, as string concatenation
  and template literals render an integer-valued number below \<open>10\<^sup>2\<^sup>1\<close>.\<close>

definition digit_char :: "nat \<Rightarrow> char" where
  "digit_char d = ''0123456789'' ! d"

fun show_nat :: "nat \<Rightarrow> string" where
  "show_nat n = (if n < 10 then [digit_char n] else show_nat (n div 10) @ [digit_char (n mod 10)])"

declare show_nat.simps [simp del]

definition show_int :: "int \<Rightarrow> string" where
  "show_int i = (if i < 0 then CHR ''-'' # show_nat (nat (- i)) else show_nat (nat i))"

section \<open>Clock and random draws\<close>

text \<open>
  The program reads the wall clock and \<^verbatim>\<open>Math.random\<close>; the model takes what they
  return as an input. One snapshot stands for all the readings of one call.
\<close>

record env =
  nowISO :: string
  nowMillis :: int
  hour :: nat
  random :: rat
  randomSuffix :: string

section \<open>Transactions and their validation\<close>

text \<open>
  The request body after the route has stamped it. The body is JSON, and the validation
  does not ask the merchant to be a string: the merchant is any JSON value. The other
  fields are typed as the data model has them (a number, and strings); \<open>timestamp\<close> is the
  instant the stamped ISO string denotes, in milliseconds.
\<close>

record transaction =
  amount :: rat
  currency :: string
  merchant :: jsval
  cardType :: string
  location :: string
  userId :: string
  timestamp :: int

text \<open>\<^verbatim>\<open>!merchant\<close>: the values that convert to false.\<close>

definition falsy :: "jsval \<Rightarrow> bool" where
  "falsy v =
     (case v of
        JNull \<Rightarrow> True
      | JBool b \<Rightarrow> \<not> b
      | JNum n \<Rightarrow> n = Fin 0 \<or> n = NaN
      | JStr s \<Rightarrow> s = []
      | _ \<Rightarrow> False)"

text \<open>
  \<^verbatim>\<open>merchant.length\<close> as the comparison with 2 reads it: the length of a string or of
  an array; \<^verbatim>\<open>undefined\<close>, hence \<^verbatim>\<open>NaN\<close>, on a number and on a boolean; on an object,
  its property \<^verbatim>\<open>length\<close>, where \<^verbatim>\<open>null\<close> and the booleans convert to 0 and 1 and an
  object to \<^verbatim>\<open>NaN\<close>. A \<^verbatim>\<open>length\<close> property that is itself a string or an array converts
  by the grammar of numeric strings, which is not modelled: it reads as \<^verbatim>\<open>NaN\<close>.
\<close>

definition length_of :: "jsval \<Rightarrow> number" where
  "length_of v =
     (case v of
        JStr s \<Rightarrow> Fin (of_nat (length s))
      | JArr xs \<Rightarrow> Fin (of_nat (length xs))
      | JObj kvs \<Rightarrow>
          (case map_of kvs ''length'' of
             Some (JNum n) \<Rightarrow> n
           | Some JNull \<Rightarrow> Fin 0
           | Some (JBool b) \<Rightarrow> Fin (if b then 1 else 0)
           | _ \<Rightarrow> NaN)
      | _ \<Rightarrow> NaN)"

text \<open>\<^verbatim>\<open>validateTransaction\<close>: the list of errors; the request goes on when it is
  empty.\<close>

definition validateTransaction :: "transaction \<Rightarrow> string list" where
  "validateTransaction tx =
     (if amount tx \<le> 0 then [''Invalid amount''] else []) @
     (if currency tx \<notin> set [''USD'', ''EUR'', ''GBP'', ''JPY'', ''CAD'', ''AUD'']
      then [''Invalid currency''] else []) @
     (if falsy (merchant tx) \<or> js_lt (length_of (merchant tx)) 2
      then [''Invalid merchant name''] else []) @
     (if cardType tx \<notin> set [''credit'', ''debit'', ''prepaid'']
      then [''Invalid card type''] else []) @
     (if length (location tx) < 2 then [''Invalid location''] else []) @
     (if length (userId tx) < 3 then [''Invalid user ID''] else [])"

section \<open>The rule-based fallback\<close>

definition fallbackRiskScore :: "env \<Rightarrow> transaction \<Rightarrow> bool \<Rightarrow> rat" where
  "fallbackRiskScore e tx riskyMerchant =
     20 +
     (if 5000 < amount tx then 30 else if 1000 < amount tx then 15 else 0) +
     (if hour e < 6 \<or> 22 < hour e then 20 else 0) +
     (if riskyMerchant then 40 else 0)"

definition fallbackStatus :: "rat \<Rightarrow> string" where
  "fallbackStatus riskScore =
     (if 70 < riskScore then ''Denied'' else if 40 < riskScore then ''Flagged'' else ''Approved'')"

text \<open>The object \<^verbatim>\<open>generateFallbackAnalysis\<close> returns once the merchant check has
  answered: the status and the alert level are taken from the score before it is capped
  at 100.\<close>

definition fallbackVerdict :: "env \<Rightarrow> transaction \<Rightarrow> bool \<Rightarrow> obj" where
  "fallbackVerdict e tx riskyMerchant =
     (let riskScore = fallbackRiskScore e tx riskyMerchant;
          status = fallbackStatus riskScore
      in [(''riskScore'', JNum (Fin (min riskScore 100))),
          (''summary'', JStr (''Fallback analysis: '' @ status @ '' based on rule-based evaluation'')),
          (''status'', JStr status),
          (''confidence'', JNum (Fin 75)),
          (''riskFactors'', JObj
             [(''LocationAnomaly'', JNum (Fin 25)),
              (''AmountDeviation'', JNum (Fin (if 1000 < amount tx then 60 else 20))),
              (''MerchantRisk'', JNum (Fin 30)),
              (''TimePattern'', JNum (Fin (if hour e < 6 \<or> 22 < hour e then 70 else 10))),
              (''CardUsage'', JNum (Fin 20)),
              (''UserBehavior'', JNum (Fin 25)),
              (''VelocityCheck'', JNum (Fin 15))]),
          (''recommendations'', JArr [JStr ''Manual review recommended'', JStr ''Verify user identity'']),
          (''alertLevel'', JStr (if 70 < riskScore then ''HIGH'' else if 40 < riskScore then ''MEDIUM'' else ''LOW'')),
          (''fallback'', JBool True)])"

text \<open>\<^verbatim>\<open>generateFallbackAnalysis\<close>: it throws where the merchant check throws, and
  nothing before the check has an effect.\<close>

definition generateFallbackAnalysis :: "env \<Rightarrow> transaction \<Rightarrow> error + obj" where
  "generateFallbackAnalysis e tx =
     (case merchantMatches (merchant tx) [''casino'', ''betting'', ''crypto''] of
        Inl err \<Rightarrow> Inl err
      | Inr riskyMerchant \<Rightarrow> Inr (fallbackVerdict e tx riskyMerchant))"

section \<open>The stores\<close>

text \<open>
  The three module-level stores. A ledger record is the transaction with the verdict
  added (\<^verbatim>\<open>{...transactionData, analysis}\<close>). The two \<^verbatim>\<open>Map\<close>s are association lists
  in insertion order; \<^verbatim>\<open>Map.prototype.set\<close> is \<open>AList.update\<close>, which overwrites a key
  in place and appends a new one.
\<close>

record ledger_record = transaction +
  analysis :: obj

datatype risk_level = LOW | MEDIUM | HIGH

record profile =
  userId_profile :: string
  riskLevel :: risk_level
  totalTransactions :: nat
  suspiciousTransactions :: nat
  recentSuspiciousActivity :: bool
  createdAt :: string
  lastUpdated :: string

record pattern =
  count :: nat
  avgRisk :: number
  lastSeen :: "string option"

record state =
  transactionHistory :: "ledger_record list"
  fraudPatterns :: "(string \<times> pattern) list"
  userRiskProfiles :: "(string \<times> profile) list"

text \<open>The stores of a process that has just started.\<close>

definition emptyState :: state where
  "emptyState = \<lparr>transactionHistory = [], fraudPatterns = [], userRiskProfiles = []\<rparr>"

section \<open>Pre-analysis\<close>

text \<open>
  \<^verbatim>\<open>getMostCommonLocations\<close> counts the locations in a plain object and sorts its
  entries by count. \<^verbatim>\<open>Object.entries\<close> lists the keys that are array indices first, in
  ascending order, then the other keys in insertion order; the sort is stable. Location
  names that are members of \<^verbatim>\<open>Object.prototype\<close> are not treated specially here.
\<close>

definition digit_value :: "char \<Rightarrow> nat" where
  "digit_value c = length (takeWhile (\<lambda>d. d \<noteq> c) ''0123456789'')"

definition parse_nat :: "string \<Rightarrow> nat" where
  "parse_nat s = foldl (\<lambda>n c. 10 * n + digit_value c) 0 s"

definition is_array_index :: "string \<Rightarrow> bool" where
  "is_array_index s =
     (s \<noteq> [] \<and> list_all (\<lambda>c. c \<in> set ''0123456789'') s \<and>
      (s = ''0'' \<or> take 1 s \<noteq> ''0'') \<and> parse_nat s < 4294967295)"

definition count_keys :: "string list \<Rightarrow> (string \<times> nat) list" where
  "count_keys ks =
     foldl (\<lambda>counts k.
              AList.update k ((case map_of counts k of Some n \<Rightarrow> n | None \<Rightarrow> 0) + 1) counts)
           [] ks"

definition object_entries :: "(string \<times> 'a) list \<Rightarrow> (string \<times> 'a) list" where
  "object_entries es =
     sort_key (\<lambda>e. parse_nat (fst e)) (filter (\<lambda>e. is_array_index (fst e)) es) @
     filter (\<lambda>e. \<not> is_array_index (fst e)) es"

definition getMostCommonLocations :: "ledger_record list \<Rightarrow> string list" where
  "getMostCommonLocations transactions =
     map fst (take 3 (sort_key (\<lambda>e. - int (snd e))
                        (object_entries (count_keys (map location transactions)))))"

text \<open>\<^verbatim>\<open>calculatePreAnalysisRisk\<close>; its third parameter, the profile, is not read by
  the source. It throws where the merchant check throws, and nothing before the check has
  an effect.\<close>

definition calculatePreAnalysisRisk :: "env \<Rightarrow> transaction \<Rightarrow> ledger_record list \<Rightarrow> profile \<Rightarrow> error + obj" where
  "calculatePreAnalysisRisk e tx userHistory userProfile =
     (case merchantMatches (merchant tx)
             [''casino'', ''betting'', ''crypto'', ''atm'', ''wire transfer''] of
        Inl err \<Rightarrow> Inl err
      | Inr riskyMerchant \<Rightarrow>
          Inr (let timeAnomaly = Fin (if hour e < 6 \<or> 23 < hour e then 40 else 0);
                   merchantRisk = Fin (if riskyMerchant then 80 else 20)
               in if 0 < length userHistory
                  then (let avgAmount =
                              foldl (\<lambda>sum t. sum + amount t) 0 userHistory
                              / of_nat (length userHistory);
                            amountDeviation = js_div (Fin \<bar>amount tx - avgAmount\<bar>) avgAmount;
                            commonLocations = getMostCommonLocations userHistory;
                            recentTransactions =
                              filter (\<lambda>t. nowMillis e - 3600000 < timestamp t) userHistory
                        in [(''amountAnomaly'', JNum (js_min (js_mul amountDeviation 50) 100)),
                            (''locationAnomaly'',
                               JNum (Fin (if location tx \<in> set commonLocations then 0 else 60))),
                            (''timeAnomaly'', JNum timeAnomaly),
                            (''velocityRisk'',
                               JNum (Fin (min (of_nat (length recentTransactions) * 25) 100))),
                            (''merchantRisk'', JNum merchantRisk)])
                  else [(''amountAnomaly'', JNum (Fin 0)),
                        (''locationAnomaly'', JNum (Fin 0)),
                        (''timeAnomaly'', JNum timeAnomaly),
                        (''velocityRisk'', JNum (Fin 0)),
                        (''merchantRisk'', JNum merchantRisk)]))"

section \<open>User profiles\<close>

text \<open>\<^verbatim>\<open>createUserProfile\<close> stores the new profile and returns it.\<close>

definition createUserProfile :: "env \<Rightarrow> string \<Rightarrow> (string \<times> profile) list \<Rightarrow> profile \<times> (string \<times> profile) list" where
  "createUserProfile e uid profiles =
     (let p = \<lparr>userId_profile = uid, riskLevel = LOW, totalTransactions = 0,
                suspiciousTransactions = 0, recentSuspiciousActivity = False,
                createdAt = nowISO e, lastUpdated = nowISO e\<rparr>
      in (p, AList.update uid p profiles))"

text \<open>\<^verbatim>\<open>userRiskProfiles.get(userId) || createUserProfile(userId)\<close>: a stored profile
  is an object, hence truthy.\<close>

definition getOrCreate :: "env \<Rightarrow> string \<Rightarrow> (string \<times> profile) list \<Rightarrow> profile \<times> (string \<times> profile) list" where
  "getOrCreate e uid profiles =
     (case map_of profiles uid of
        Some p \<Rightarrow> (p, profiles)
      | None \<Rightarrow> createUserProfile e uid profiles)"

text \<open>
  \<^verbatim>\<open>updateUserProfile\<close>. The source mutates the stored object and sets it again under
  its key; the model builds the new profile and stores it. The thresholds are the decimal
  fractions the literals \<^verbatim>\<open>0.3\<close> and \<^verbatim>\<open>0.1\<close> denote.
\<close>

definition updateUserProfile :: "env \<Rightarrow> string \<Rightarrow> transaction \<Rightarrow> obj \<Rightarrow> (string \<times> profile) list \<Rightarrow> (string \<times> profile) list" where
  "updateUserProfile e uid tx a profiles =
     (let (p0, profiles1) = getOrCreate e uid profiles;
          p1 = p0\<lparr>totalTransactions := totalTransactions p0 + 1, lastUpdated := nowISO e\<rparr>;
          p2 = (if js_gt (num_prop a ''riskScore'') 70
                then p1\<lparr>suspiciousTransactions := suspiciousTransactions p1 + 1,
                        recentSuspiciousActivity := True\<rparr>
                else p1);
          suspiciousRatio =
            js_div (Fin (of_nat (suspiciousTransactions p2))) (of_nat (totalTransactions p2));
          p3 = p2\<lparr>riskLevel :=
                     (if js_gt suspiciousRatio (3 / 10) then HIGH
                      else if js_gt suspiciousRatio (1 / 10) then MEDIUM
                      else LOW)\<rparr>
      in AList.update uid p3 profiles1)"

text \<open>
  The two operations that write the profile store, and the store after a sequence of them
  on a fresh process.
\<close>

datatype profile_op =
    GetOrCreate env string
  | RecordOutcome env string transaction obj

fun applyProfileOp :: "profile_op \<Rightarrow> (string \<times> profile) list \<Rightarrow> (string \<times> profile) list" where
  "applyProfileOp (GetOrCreate e uid) profiles = snd (getOrCreate e uid profiles)"
| "applyProfileOp (RecordOutcome e uid tx a) profiles = updateUserProfile e uid tx a profiles"

definition runProfileOps :: "profile_op list \<Rightarrow> (string \<times> profile) list" where
  "runProfileOps ops = fold applyProfileOp ops []"

text \<open>The verdicts that a sequence of operations records for one user, in order.\<close>

fun outcomesFor :: "string \<Rightarrow> profile_op list \<Rightarrow> obj list" where
  "outcomesFor uid [] = []"
| "outcomesFor uid (GetOrCreate e u # ops) = outcomesFor uid ops"
| "outcomesFor uid (RecordOutcome e u tx a # ops) =
     (if u = uid then a # outcomesFor uid ops else outcomesFor uid ops)"

text \<open>
  What the store holds of a user: \<open>totalTransactions\<close>, \<open>suspiciousTransactions\<close> and
  \<open>recentSuspiciousActivity\<close> of the stored profile, and zero, zero and false when no profile
  is stored for the user.
\<close>

definition countersOf :: "(string \<times> profile) list \<Rightarrow> string \<Rightarrow> nat \<times> nat \<times> bool" where
  "countersOf profiles uid =
     (case map_of profiles uid of
        None \<Rightarrow> (0, 0, False)
      | Some p \<Rightarrow> (totalTransactions p, suspiciousTransactions p, recentSuspiciousActivity p))"

text \<open>What \<^verbatim>\<open>updateUserProfile\<close> makes of the profile it found or created.\<close>

definition recorded :: "env \<Rightarrow> obj \<Rightarrow> profile \<Rightarrow> profile" where
  "recorded e a p0 =
     (let p1 = p0\<lparr>totalTransactions := totalTransactions p0 + 1, lastUpdated := nowISO e\<rparr>;
          p2 = (if js_gt (num_prop a ''riskScore'') 70
                then p1\<lparr>suspiciousTransactions := suspiciousTransactions p1 + 1,
                        recentSuspiciousActivity := True\<rparr>
                else p1);
          suspiciousRatio =
            js_div (Fin (of_nat (suspiciousTransactions p2))) (of_nat (totalTransactions p2))
      in p2\<lparr>riskLevel :=
                (if js_gt suspiciousRatio (3 / 10) then HIGH
                 else if js_gt suspiciousRatio (1 / 10) then MEDIUM
                 else LOW)\<rparr>)"

section \<open>Fraud patterns\<close>

text \<open>
  The key of a pattern. The template literal renders the merchant, which is a string
  whenever this point is reached (the pre-analysis has thrown otherwise), and the bucket
  of the amount, in decimal digits below \<open>10\<^sup>2\<^sup>1\<close>.
\<close>

definition patternKey :: "transaction \<Rightarrow> string" where
  "patternKey tx =
     (case merchant tx of JStr name \<Rightarrow> name | _ \<Rightarrow> []) @ ''-'' @ location tx @ ''-'' @
     show_int (\<lfloor>amount tx / 100\<rfloor> * 100)"

definition updateFraudPatterns :: "env \<Rightarrow> transaction \<Rightarrow> obj \<Rightarrow> (string \<times> pattern) list \<Rightarrow> (string \<times> pattern) list" where
  "updateFraudPatterns e tx a patterns =
     (if js_gt (num_prop a ''riskScore'') 80
      then (let existingPattern =
                  (case map_of patterns (patternKey tx) of
                     Some p \<Rightarrow> p
                   | None \<Rightarrow> \<lparr>count = 0, avgRisk = Fin 0, lastSeen = None\<rparr>)
            in AList.update (patternKey tx)
                 (existingPattern
                    \<lparr>count := count existingPattern + 1,
                     avgRisk := js_div (js_add (avgRisk existingPattern) (num_prop a ''riskScore'')) 2,
                     lastSeen := Some (nowISO e)\<rparr>)
                 patterns)
      else patterns)"

section \<open>The oracle's reply\<close>

text \<open>
  What one call of the oracle gives: the request or the reading of its text throws; the
  cleaned text is not JSON, so that \<^verbatim>\<open>JSON.parse\<close> throws; or the text parses to a
  value.
\<close>

datatype oracle_reply = Failed | Unparseable | Parsed jsval

text \<open>
  \<^verbatim>\<open>isValidAnalysis\<close>. The call \<^verbatim>\<open>analysis.hasOwnProperty(field)\<close> throws a
  \<^verbatim>\<open>TypeError\<close> on \<^verbatim>\<open>null\<close>, and on an object that has a property of its own named
  \<^verbatim>\<open>hasOwnProperty\<close> (no JSON value is a function). A boolean, a number, a string and an
  array have none of the required properties of their own.
\<close>

fun isValidAnalysis :: "jsval \<Rightarrow> error + bool" where
  "isValidAnalysis JNull = Inl TypeError"
| "isValidAnalysis (JObj a) =
     (if map_of a ''hasOwnProperty'' \<noteq> None then Inl TypeError
      else Inr (list_all (\<lambda>field. map_of a field \<noteq> None)
                  [''riskScore'', ''summary'', ''status'', ''riskFactors''] \<and>
                (case map_of a ''riskScore'' of
                   Some (JNum n) \<Rightarrow> js_ge n 0 \<and> js_le n 100
                 | _ \<Rightarrow> False) \<and>
                (case map_of a ''status'' of
                   Some (JStr st) \<Rightarrow> st \<in> set [''Approved'', ''Flagged'', ''Denied'']
                 | _ \<Rightarrow> False)))"
| "isValidAnalysis _ = Inr False"

section \<open>Enhancing an accepted reply\<close>

definition generateTransactionId :: "env \<Rightarrow> string" where
  "generateTransactionId e = ''TXN-'' @ show_int (nowMillis e) @ ''-'' @ randomSuffix e"

definition defaultRiskFactors :: obj where
  "defaultRiskFactors =
     [(''LocationAnomaly'', JNum (Fin 0)),
      (''AmountDeviation'', JNum (Fin 0)),
      (''MerchantRisk'', JNum (Fin 0)),
      (''TimePattern'', JNum (Fin 0)),
      (''CardUsage'', JNum (Fin 0)),
      (''UserBehavior'', JNum (Fin 0)),
      (''VelocityCheck'', JNum (Fin 0))]"

text \<open>
  The properties an object spread \<^verbatim>\<open>...v\<close> copies: the own properties of an object,
  the elements of an array and the characters of a string under their indices, nothing
  for the other values and for \<^verbatim>\<open>undefined\<close>.
\<close>

definition spread_props :: "jsval option \<Rightarrow> obj" where
  "spread_props v =
     (case v of
        Some (JObj kvs) \<Rightarrow> kvs
      | Some (JArr xs) \<Rightarrow> zip (map show_nat [0..<length xs]) xs
      | Some (JStr s) \<Rightarrow> zip (map show_nat [0..<length s]) (map (\<lambda>c. JStr [c]) s)
      | _ \<Rightarrow> [])"

text \<open>\<^verbatim>\<open>{ ...base, ...v }\<close>: every copied property is set on the copy of \<open>base\<close>, a
  later one overwriting an earlier one of the same name.\<close>

definition spread_onto :: "obj \<Rightarrow> jsval option \<Rightarrow> obj" where
  "spread_onto base v = fold (\<lambda>kv. AList.update (fst kv) (snd kv)) (spread_props v) base"

definition enhanceAnalysis :: "env \<Rightarrow> obj \<Rightarrow> transaction \<Rightarrow> obj \<Rightarrow> obj" where
  "enhanceAnalysis e a tx preAnalysis =
     (let a1 = AList.update ''timestamp'' (JStr (nowISO e)) a;
          a2 = AList.update ''transactionId'' (JStr (generateTransactionId e)) a1;
          a3 = AList.update ''processingTime'' (JNum (Fin (random e * 500 + 100))) a2;
          a4 = AList.update ''version'' (JStr ''2.1'') a3;
          a5 = AList.update ''preAnalysisRisk'' (JObj preAnalysis) a4
      in AList.update ''riskFactors''
           (JObj (spread_onto defaultRiskFactors (map_of a5 ''riskFactors''))) a5)"

section \<open>The analysis\<close>

text \<open>
  The body of the \<^verbatim>\<open>try\<close> of \<^verbatim>\<open>performFraudAnalysis\<close>: \<open>Inl\<close> is a thrown error, and
  the state is the stores as the body left them. The pre-analysis runs before the oracle
  is asked. The prompt goes to the oracle and to nothing else, so building it is left out.
  A reply that passes the validation is an object; the last branch is there for the values
  that never pass.
\<close>

definition tryBlock :: "env \<Rightarrow> oracle_reply \<Rightarrow> transaction \<Rightarrow> state \<Rightarrow> (error + obj) \<times> state" where
  "tryBlock e reply tx s =
     (let userHistory = filter (\<lambda>t. userId t = userId tx) (transactionHistory s);
          (userProfile, profiles1) = getOrCreate e (userId tx) (userRiskProfiles s);
          s1 = s\<lparr>userRiskProfiles := profiles1\<rparr>
      in case calculatePreAnalysisRisk e tx userHistory userProfile of
           Inl err \<Rightarrow> (Inl err, s1)
         | Inr preAnalysis \<Rightarrow>
             (case reply of
                Failed \<Rightarrow> (Inl OracleError, s1)
              | Unparseable \<Rightarrow> (Inl SyntaxError, s1)
              | Parsed v \<Rightarrow>
                  (case isValidAnalysis v of
                     Inl err \<Rightarrow> (Inl err, s1)
                   | Inr False \<Rightarrow> (Inl InvalidFormat, s1)
                   | Inr True \<Rightarrow>
                       (case v of
                          JObj a \<Rightarrow>
                            (let enhancedAnalysis = enhanceAnalysis e a tx preAnalysis;
                                 s2 = s1\<lparr>userRiskProfiles :=
                                           updateUserProfile e (userId tx) tx enhancedAnalysis
                                             (userRiskProfiles s1)\<rparr>;
                                 s3 = s2\<lparr>fraudPatterns :=
                                           updateFraudPatterns e tx enhancedAnalysis
                                             (fraudPatterns s2)\<rparr>
                             in (Inr enhancedAnalysis, s3))
                        | _ \<Rightarrow> (Inl InvalidFormat, s1)))))"

text \<open>
  \<^verbatim>\<open>performFraudAnalysis\<close>: the \<^verbatim>\<open>catch\<close> answers every error of the body with
  \<^verbatim>\<open>generateFallbackAnalysis\<close>, and an error thrown there is not caught: the call
  rejects with it.
\<close>

definition performFraudAnalysis :: "env \<Rightarrow> oracle_reply \<Rightarrow> transaction \<Rightarrow> state \<Rightarrow> (error + obj) \<times> state" where
  "performFraudAnalysis e reply tx s =
     (case tryBlock e reply tx s of
        (Inr a, s') \<Rightarrow> (Inr a, s')
      | (Inl err, s') \<Rightarrow> (generateFallbackAnalysis e tx, s'))"

section \<open>The route\<close>

text \<open>The record the route pushes: \<^verbatim>\<open>{...transactionData, analysis}\<close>.\<close>

definition ledgerRecord :: "transaction \<Rightarrow> obj \<Rightarrow> ledger_record" where
  "ledgerRecord tx a =
     \<lparr>amount = amount tx, currency = currency tx, merchant = merchant tx,
      cardType = cardType tx, location = location tx, userId = userId tx,
      timestamp = timestamp tx, analysis = a\<rparr>"

text \<open>
  The handler of \<^verbatim>\<open>POST /api/analyze-fraud\<close> behind the validation middleware: a
  request that fails the validation is answered with its errors and touches nothing;
  otherwise the verdict is appended to the ledger, which keeps its last 1000 records; and
  when the analysis rejects, the handler answers with the status 500 and appends nothing.
\<close>

datatype response = BadRequest "string list" | Success obj | ServerError

definition analyzeFraud :: "env \<Rightarrow> oracle_reply \<Rightarrow> transaction \<Rightarrow> state \<Rightarrow> response \<times> state" where
  "analyzeFraud e reply tx s =
     (if validateTransaction tx \<noteq> [] then (BadRequest (validateTransaction tx), s)
      else (case performFraudAnalysis e reply tx s of
              (Inr a, s') \<Rightarrow>
                (let h = transactionHistory s' @ [ledgerRecord tx a]
                 in (Success a,
                     s'\<lparr>transactionHistory :=
                          (if 1000 < length h then drop (length h - 1000) h else h)\<rparr>))
            | (Inl err, s') \<Rightarrow> (ServerError, s')))"

text \<open>The stores after a sequence of requests, each with its own clock reading and
  oracle reply, served one after the other by a fresh process.\<close>

definition runRequests :: "(env \<times> oracle_reply \<times> transaction) list \<Rightarrow> state" where
  "runRequests reqs =
     fold (\<lambda>req s. snd (analyzeFraud (fst req) (fst (snd req)) (snd (snd req)) s)) reqs emptyState"

section \<open>Statistics\<close>

record stats =
  totalTransactions_stats :: nat
  approvedTransactions :: nat
  flaggedTransactions :: nat
  deniedTransactions :: nat
  averageRiskScore :: number
  uniqueUsers :: nat
  fraudPatternsDetected :: nat
  highRiskUsers :: nat

text \<open>The handler of \<^verbatim>\<open>GET /api/stats\<close>.\<close>

definition getStats :: "state \<Rightarrow> stats" where
  "getStats s =
     (let h = transactionHistory s
      in \<lparr>totalTransactions_stats = length h,
          approvedTransactions =
            length (filter (\<lambda>t. map_of (analysis t) ''status'' = Some (JStr ''Approved'')) h),
          flaggedTransactions =
            length (filter (\<lambda>t. map_of (analysis t) ''status'' = Some (JStr ''Flagged'')) h),
          deniedTransactions =
            length (filter (\<lambda>t. map_of (analysis t) ''status'' = Some (JStr ''Denied'')) h),
          averageRiskScore =
            (if 0 < length h
             then js_div (foldl (\<lambda>sum t. js_add sum (num_prop (analysis t) ''riskScore'')) (Fin 0) h)
                    (of_nat (length h))
             else Fin 0),
          uniqueUsers = length (remdups (map userId h)),
          fraudPatternsDetected = length (fraudPatterns s),
          highRiskUsers = length (filter (\<lambda>p. riskLevel p = HIGH) (map snd (userRiskProfiles s)))\<rparr>)"

section \<open>Example inputs\<close>

text \<open>Concrete inputs on which the properties below are evaluated: a clock reading with a
  given hour, and a purchase of a given amount at a given merchant.\<close>

definition exampleEnv :: "nat \<Rightarrow> env" where
  "exampleEnv h =
     \<lparr>nowISO = ''2024-01-15T10:30:00.000Z'', nowMillis = 1705314600000, hour = h,
      random = 1 / 2, randomSuffix = ''ABC123''\<rparr>"

definition exampleTx :: "rat \<Rightarrow> string \<Rightarrow> transaction" where
  "exampleTx amt m =
     \<lparr>amount = amt, currency = ''USD'', merchant = JStr m, cardType = ''credit'',
      location = ''New York, NY'', userId = ''user123'', timestamp = 1705314600000\<rparr>"

text \<open>A request whose merchant is the array \<^verbatim>\<open>["Best", "Buy"]\<close>.\<close>

definition arrayMerchantTx :: transaction where
  "arrayMerchantTx =
     \<lparr>amount = 2500, currency = ''USD'', merchant = JArr [JStr ''Best'', JStr ''Buy''],
      cardType = ''credit'', location = ''New York, NY'', userId = ''user123'',
      timestamp = 1705314600000\<rparr>"

text \<open>The properties of a reply of the oracle with the four required fields and a
  confidence, and a \<open>riskFactors\<close> object that names one of the seven factors and one
  other.\<close>

definition exampleFields :: "rat \<Rightarrow> string \<Rightarrow> jsval \<Rightarrow> obj" where
  "exampleFields score st factors =
     [(''riskScore'', JNum (Fin score)),
      (''summary'', JStr ''Scored by the oracle''),
      (''status'', JStr st),
      (''confidence'', JNum (Fin 90)),
      (''riskFactors'', factors)]"

definition extraFactors :: jsval where
  "extraFactors = JObj [(''CardUsage'', JNum (Fin 7)), (''DeviceRisk'', JNum (Fin 55))]"

text \<open>A verdict of which only the score matters, and a ledger of two records.\<close>

definition scored :: "rat \<Rightarrow> obj" where
  "scored r = [(''riskScore'', JNum (Fin r))]"

definition exampleLedger :: state where
  "exampleLedger =
     \<lparr>transactionHistory =
        [ledgerRecord (exampleTx 2500 ''Best Buy'') (scored 35),
         ledgerRecord (exampleTx 6000 ''Casino Royale'') (scored 100)],
      fraudPatterns = [], userRiskProfiles = []\<rparr>"

section \<open>Properties of the fallback\<close>

lemma fallback_riskScore:
  "map_of (fallbackVerdict e tx risky) ''riskScore'' =
     Some (JNum (Fin (min (fallbackRiskScore e tx risky) 100)))"
  by (simp add: fallbackVerdict_def Let_def)

lemma fallback_status:
  "map_of (fallbackVerdict e tx risky) ''status'' =
     Some (JStr (fallbackStatus (fallbackRiskScore e tx risky)))"
  by (simp add: fallbackVerdict_def Let_def)

lemma fallback_confidence:
  "map_of (fallbackVerdict e tx risky) ''confidence'' = Some (JNum (Fin 75))"
  by (simp add: fallbackVerdict_def Let_def)

lemma fallback_alertLevel:
  "map_of (fallbackVerdict e tx risky) ''alertLevel'' =
     Some (JStr (if 70 < fallbackRiskScore e tx risky then ''HIGH''
                 else if 40 < fallbackRiskScore e tx risky then ''MEDIUM'' else ''LOW''))"
  by (simp add: fallbackVerdict_def Let_def)

lemma fallback_flag:
  "map_of (fallbackVerdict e tx risky) ''fallback'' = Some (JBool True)"
  by (simp add: fallbackVerdict_def Let_def)

lemma fallback_no_metadata:
  "map_of (fallbackVerdict e tx risky) ''timestamp'' = None"
  "map_of (fallbackVerdict e tx risky) ''transactionId'' = None"
  "map_of (fallbackVerdict e tx risky) ''processingTime'' = None"
  "map_of (fallbackVerdict e tx risky) ''preAnalysisRisk'' = None"
  "map_of (fallbackVerdict e tx risky) ''version'' = None"
  by (simp_all add: fallbackVerdict_def Let_def)

lemma fallback_frame:
  "fallbackVerdict
     (e\<lparr>nowISO := i, nowMillis := ms, random := r, randomSuffix := x\<rparr>)
     (tx\<lparr>currency := c, cardType := ct, location := l, userId := u, timestamp := t\<rparr>)
     risky
   = fallbackVerdict e tx risky"
  by (simp add: fallbackVerdict_def fallbackRiskScore_def)

lemma merchantMatches_string:
  "merchantMatches (JStr name) riskMerchants =
     Inr (list_ex (\<lambda>risk. str_includes (toLowerCase name) risk) riskMerchants)"
  by (simp add: merchantMatches_def)

lemma merchantMatches_other:
  "riskMerchants \<noteq> [] \<Longrightarrow> \<forall>name. m \<noteq> JStr name \<Longrightarrow> merchantMatches m riskMerchants = Inl TypeError"
  by (cases m) (simp_all add: merchantMatches_def)

lemma generateFallbackAnalysis_string:
  "merchant tx = JStr name \<Longrightarrow>
   generateFallbackAnalysis e tx =
     Inr (fallbackVerdict e tx
            (str_includes (toLowerCase name) ''casino''
             \<or> str_includes (toLowerCase name) ''betting''
             \<or> str_includes (toLowerCase name) ''crypto''))"
  by (simp add: generateFallbackAnalysis_def merchantMatches_string)

lemma generateFallbackAnalysis_other:
  "\<forall>name. merchant tx \<noteq> JStr name \<Longrightarrow> generateFallbackAnalysis e tx = Inl TypeError"
  by (simp add: generateFallbackAnalysis_def merchantMatches_other)

lemma calculatePreAnalysisRisk_string:
  "merchant tx = JStr name \<Longrightarrow> \<exists>pre. calculatePreAnalysisRisk e tx h p = Inr pre"
  by (simp add: calculatePreAnalysisRisk_def merchantMatches_string)

lemma calculatePreAnalysisRisk_other:
  "\<forall>name. merchant tx \<noteq> JStr name \<Longrightarrow> calculatePreAnalysisRisk e tx h p = Inl TypeError"
  by (simp add: calculatePreAnalysisRisk_def merchantMatches_other)

lemma lower_Casino_Royale: "toLowerCase ''Casino Royale'' = ''casino royale''"
  by (simp add: toLowerCase_def lower_char_def)

lemma lower_Best_Buy: "toLowerCase ''Best Buy'' = ''best buy''"
  by (simp add: toLowerCase_def lower_char_def)

lemma fallback_Casino_Royale:
  "generateFallbackAnalysis e (tx\<lparr>merchant := JStr ''Casino Royale''\<rparr>)
     = Inr (fallbackVerdict e (tx\<lparr>merchant := JStr ''Casino Royale''\<rparr>) True)"
  by (simp add: generateFallbackAnalysis_string [where name = "''Casino Royale''"] lower_Casino_Royale)

lemma fallback_Best_Buy:
  "generateFallbackAnalysis e (tx\<lparr>merchant := JStr ''Best Buy''\<rparr>)
     = Inr (fallbackVerdict e (tx\<lparr>merchant := JStr ''Best Buy''\<rparr>) False)"
  by (simp add: generateFallbackAnalysis_string [where name = "''Best Buy''"] lower_Best_Buy)

lemma score_casino:
  "fallbackRiskScore (e\<lparr>hour := 2\<rparr>) (tx\<lparr>amount := 6000\<rparr>) True = 110"
  by (simp add: fallbackRiskScore_def)

lemma score_best_buy:
  "fallbackRiskScore (e\<lparr>hour := 14\<rparr>) (tx\<lparr>amount := 2500\<rparr>) False = 35"
  by (simp add: fallbackRiskScore_def)

text \<open>
  Claim C7. For a merchant that is a string, the fallback verdict is a function of the
  amount, the merchant and the current hour alone: its \<open>riskScore\<close> is the minimum of 100
  and 20, plus 30 for an amount above 5000 or else 15 for an amount above 1000, plus 20 for
  an hour before 6 or after 22, plus 40 for a merchant whose lower-cased name contains
  \<open>casino\<close>, \<open>betting\<close> or \<open>crypto\<close>; its status is \<open>Denied\<close> above 70, \<open>Flagged\<close> above 40
  and \<open>Approved\<close> otherwise; its confidence is 75; and no other field of the clock or of
  the transaction changes it. For an amount of 6000 at \<open>Casino Royale\<close> at hour 2 the score
  is 100, the status \<open>Denied\<close> and the alert level \<open>HIGH\<close>.
\<close>

theorem generateFallbackAnalysis_rule:
  "(let tx' = tx\<lparr>merchant := JStr name\<rparr>;
        score = min (20 + (if 5000 < amount tx then 30 else if 1000 < amount tx then 15 else 0)
                        + (if hour e < 6 \<or> 22 < hour e then 20 else 0)
                        + (if str_includes (toLowerCase name) ''casino''
                              \<or> str_includes (toLowerCase name) ''betting''
                              \<or> str_includes (toLowerCase name) ''crypto''
                           then 40 else 0))
                    (100 :: rat)
    in \<exists>verdict.
         generateFallbackAnalysis e tx' = Inr verdict \<and>
         map_of verdict ''riskScore'' = Some (JNum (Fin score)) \<and>
         map_of verdict ''status'' =
           Some (JStr (if 70 < score then ''Denied'' else if 40 < score then ''Flagged'' else ''Approved'')) \<and>
         map_of verdict ''confidence'' = Some (JNum (Fin 75)) \<and>
         generateFallbackAnalysis
           (e\<lparr>nowISO := i, nowMillis := ms, random := r, randomSuffix := x\<rparr>)
           (tx'\<lparr>currency := c, cardType := ct, location := l, userId := u, timestamp := t\<rparr>)
         = Inr verdict) \<and>
   (\<exists>verdict.
      generateFallbackAnalysis (e\<lparr>hour := 2\<rparr>)
        (tx\<lparr>amount := 6000, merchant := JStr ''Casino Royale''\<rparr>) = Inr verdict \<and>
      map_of verdict ''riskScore'' = Some (JNum (Fin 100)) \<and>
      map_of verdict ''status'' = Some (JStr ''Denied'') \<and>
      map_of verdict ''alertLevel'' = Some (JStr ''HIGH''))"
proof (intro conjI)
  let ?tx = "tx\<lparr>merchant := JStr name\<rparr>"
  let ?risky = "str_includes (toLowerCase name) ''casino''
                \<or> str_includes (toLowerCase name) ''betting''
                \<or> str_includes (toLowerCase name) ''crypto''"
  let ?v = "fallbackVerdict e ?tx ?risky"
  have score: "min (fallbackRiskScore e ?tx ?risky) 100 =
      min (20 + (if 5000 < amount tx then 30 else if 1000 < amount tx then 15 else 0)
              + (if hour e < 6 \<or> 22 < hour e then 20 else 0)
              + (if ?risky then 40 else 0)) 100"
    by (simp add: fallbackRiskScore_def)
  have status: "fallbackStatus (fallbackRiskScore e ?tx ?risky) =
      (if 70 < min (fallbackRiskScore e ?tx ?risky) 100 then ''Denied''
       else if 40 < min (fallbackRiskScore e ?tx ?risky) 100 then ''Flagged'' else ''Approved'')"
    by (simp add: fallbackStatus_def min_def)
  have g: "generateFallbackAnalysis e ?tx = Inr ?v"
    by (rule generateFallbackAnalysis_string) simp
  have f: "generateFallbackAnalysis
           (e\<lparr>nowISO := i, nowMillis := ms, random := r, randomSuffix := x\<rparr>)
           (?tx\<lparr>currency := c, cardType := ct, location := l, userId := u, timestamp := t\<rparr>)
         = Inr ?v"
    by (simp add: generateFallbackAnalysis_string [where name = name] fallback_frame)
  have "generateFallbackAnalysis e ?tx = Inr ?v \<and>
         map_of ?v ''riskScore'' = Some (JNum (Fin (min (fallbackRiskScore e ?tx ?risky) 100))) \<and>
         map_of ?v ''status'' =
           Some (JStr (if 70 < min (fallbackRiskScore e ?tx ?risky) 100 then ''Denied''
                       else if 40 < min (fallbackRiskScore e ?tx ?risky) 100 then ''Flagged''
                       else ''Approved'')) \<and>
         map_of ?v ''confidence'' = Some (JNum (Fin 75)) \<and>
         generateFallbackAnalysis
           (e\<lparr>nowISO := i, nowMillis := ms, random := r, randomSuffix := x\<rparr>)
           (?tx\<lparr>currency := c, cardType := ct, location := l, userId := u, timestamp := t\<rparr>)
         = Inr ?v"
    using g f status by (simp only: fallback_riskScore fallback_status fallback_confidence)
  then show "let tx' = tx\<lparr>merchant := JStr name\<rparr>;
        score = min (20 + (if 5000 < amount tx then 30 else if 1000 < amount tx then 15 else 0)
                        + (if hour e < 6 \<or> 22 < hour e then 20 else 0)
                        + (if str_includes (toLowerCase name) ''casino''
                              \<or> str_includes (toLowerCase name) ''betting''
                              \<or> str_includes (toLowerCase name) ''crypto''
                           then 40 else 0))
                    (100 :: rat)
    in \<exists>verdict.
         generateFallbackAnalysis e tx' = Inr verdict \<and>
         map_of verdict ''riskScore'' = Some (JNum (Fin score)) \<and>
         map_of verdict ''status'' =
           Some (JStr (if 70 < score then ''Denied'' else if 40 < score then ''Flagged'' else ''Approved'')) \<and>
         map_of verdict ''confidence'' = Some (JNum (Fin 75)) \<and>
         generateFallbackAnalysis
           (e\<lparr>nowISO := i, nowMillis := ms, random := r, randomSuffix := x\<rparr>)
           (tx'\<lparr>currency := c, cardType := ct, location := l, userId := u, timestamp := t\<rparr>)
         = Inr verdict"
    unfolding Let_def score by (intro exI [where x = "?v"])
next
  let ?tx = "tx\<lparr>amount := 6000, merchant := JStr ''Casino Royale''\<rparr>"
  have s: "fallbackRiskScore (e\<lparr>hour := 2\<rparr>) ?tx True = 110"
    by (simp add: fallbackRiskScore_def)
  show "\<exists>verdict.
      generateFallbackAnalysis (e\<lparr>hour := 2\<rparr>) ?tx = Inr verdict \<and>
      map_of verdict ''riskScore'' = Some (JNum (Fin 100)) \<and>
      map_of verdict ''status'' = Some (JStr ''Denied'') \<and>
      map_of verdict ''alertLevel'' = Some (JStr ''HIGH'')"
    by (intro exI [where x = "fallbackVerdict (e\<lparr>hour := 2\<rparr>) ?tx True"])
       (simp add: fallback_Casino_Royale fallback_riskScore fallback_status fallback_alertLevel s
          fallbackStatus_def)
qed

section \<open>Properties of the analysis\<close>

lemma isValidAnalysis_True_obj: "isValidAnalysis v = Inr True \<Longrightarrow> \<exists>a. v = JObj a"
  by (cases v) auto

lemma tryBlock_throws:
  "\<forall>name. merchant tx \<noteq> JStr name \<Longrightarrow>
   tryBlock e reply tx s =
     (Inl TypeError, s\<lparr>userRiskProfiles := snd (getOrCreate e (userId tx) (userRiskProfiles s))\<rparr>)"
  by (simp add: tryBlock_def Let_def calculatePreAnalysisRisk_other split: prod.split)

lemma tryBlock_Failed:
  "\<exists>err. tryBlock e Failed tx s =
     (Inl err, s\<lparr>userRiskProfiles := snd (getOrCreate e (userId tx) (userRiskProfiles s))\<rparr>)"
  by (simp add: tryBlock_def Let_def split: prod.split sum.split)

lemma tryBlock_Unparseable:
  "\<exists>err. tryBlock e Unparseable tx s =
     (Inl err, s\<lparr>userRiskProfiles := snd (getOrCreate e (userId tx) (userRiskProfiles s))\<rparr>)"
  by (simp add: tryBlock_def Let_def split: prod.split sum.split)

lemma tryBlock_rejected:
  assumes "isValidAnalysis v \<noteq> Inr True"
  shows "\<exists>err. tryBlock e (Parsed v) tx s =
     (Inl err, s\<lparr>userRiskProfiles := snd (getOrCreate e (userId tx) (userRiskProfiles s))\<rparr>)"
  using assms
  by (cases "isValidAnalysis v")
     (auto simp add: tryBlock_def Let_def split: prod.split sum.split bool.split jsval.split)

lemma tryBlock_accepted:
  assumes "isValidAnalysis (JObj a) = Inr True"
    and "calculatePreAnalysisRisk e tx
           (filter (\<lambda>t. userId t = userId tx) (transactionHistory s))
           (fst (getOrCreate e (userId tx) (userRiskProfiles s))) = Inr pre"
  shows "fst (tryBlock e (Parsed (JObj a)) tx s) = Inr (enhanceAnalysis e a tx pre)"
  using assms
  by (cases "getOrCreate e (userId tx) (userRiskProfiles s)")
     (simp add: tryBlock_def Let_def del: isValidAnalysis.simps)

lemma performFraudAnalysis_Failed:
  "performFraudAnalysis e Failed tx s =
     (generateFallbackAnalysis e tx,
      s\<lparr>userRiskProfiles := snd (getOrCreate e (userId tx) (userRiskProfiles s))\<rparr>)"
  using tryBlock_Failed [of e tx s] by (auto simp add: performFraudAnalysis_def)

lemma performFraudAnalysis_Unparseable:
  "performFraudAnalysis e Unparseable tx s =
     (generateFallbackAnalysis e tx,
      s\<lparr>userRiskProfiles := snd (getOrCreate e (userId tx) (userRiskProfiles s))\<rparr>)"
  using tryBlock_Unparseable [of e tx s] by (auto simp add: performFraudAnalysis_def)

lemma performFraudAnalysis_rejected:
  assumes "isValidAnalysis v \<noteq> Inr True"
  shows "performFraudAnalysis e (Parsed v) tx s =
     (generateFallbackAnalysis e tx,
      s\<lparr>userRiskProfiles := snd (getOrCreate e (userId tx) (userRiskProfiles s))\<rparr>)"
  using tryBlock_rejected [OF assms, of e tx s] by (auto simp add: performFraudAnalysis_def)

lemma performFraudAnalysis_throws:
  assumes "\<forall>name. merchant tx \<noteq> JStr name"
  shows "performFraudAnalysis e reply tx s =
     (Inl TypeError, s\<lparr>userRiskProfiles := snd (getOrCreate e (userId tx) (userRiskProfiles s))\<rparr>)"
  using assms
  by (simp add: performFraudAnalysis_def tryBlock_throws generateFallbackAnalysis_other)

lemma performFraudAnalysis_returns:
  assumes "merchant tx = JStr name"
  shows "\<exists>a s'. performFraudAnalysis e reply tx s = (Inr a, s')"
proof (cases "tryBlock e reply tx s")
  case (Pair r s')
  then show ?thesis
    using generateFallbackAnalysis_string [OF assms, of e]
    by (cases r) (simp_all add: performFraudAnalysis_def)
qed

lemma validate_example: "validateTransaction (exampleTx 2500 ''Best Buy'') = []"
  by (simp add: validateTransaction_def exampleTx_def falsy_def length_of_def)

lemma validate_array: "validateTransaction arrayMerchantTx = []"
  by (simp add: validateTransaction_def arrayMerchantTx_def falsy_def length_of_def)

lemma validate_merchant_42:
  "validateTransaction (tx\<lparr>merchant := JNum (Fin 42)\<rparr>)
     = validateTransaction (tx\<lparr>merchant := JStr ''Best Buy''\<rparr>)"
  by (simp add: validateTransaction_def falsy_def length_of_def)

lemma arrayMerchant_not_string: "\<forall>name. merchant arrayMerchantTx \<noteq> JStr name"
  by (simp add: arrayMerchantTx_def)

text \<open>
  Claim C1, evaluated on the code. A request whose merchant is the array
  \<^verbatim>\<open>["Best", "Buy"]\<close> passes \<open>validateTransaction\<close>: the array is truthy and its length is
  2. The body of the \<^verbatim>\<open>try\<close> throws a \<open>TypeError\<close> in the pre-analysis, where the merchant
  has no \<^verbatim>\<open>toLowerCase\<close>; the \<^verbatim>\<open>catch\<close> calls \<open>generateFallbackAnalysis\<close>, which throws
  the same error on the same expression; so \<open>performFraudAnalysis\<close> rejects, whatever the
  oracle did, and the route answers with the status 500. The same holds for the merchant
  \<open>42\<close>, which the validation treats as it treats \<open>Best Buy\<close>. When the merchant is a
  string the call returns a verdict, whatever the oracle did; and whatever the merchant,
  a failed request and an unparseable reply end as \<open>generateFallbackAnalysis\<close> ends.
\<close>

theorem array_merchant_rejects:
  "validateTransaction arrayMerchantTx = [] \<and>
   fst (tryBlock e reply arrayMerchantTx s) = Inl TypeError \<and>
   generateFallbackAnalysis e arrayMerchantTx = Inl TypeError \<and>
   fst (performFraudAnalysis e reply arrayMerchantTx s) = Inl TypeError \<and>
   fst (analyzeFraud e reply arrayMerchantTx s) = ServerError \<and>
   validateTransaction (tx\<lparr>merchant := JNum (Fin 42)\<rparr>)
     = validateTransaction (tx\<lparr>merchant := JStr ''Best Buy''\<rparr>) \<and>
   fst (performFraudAnalysis e reply (tx\<lparr>merchant := JNum (Fin 42)\<rparr>) s) = Inl TypeError \<and>
   (\<exists>a s'. performFraudAnalysis e reply (tx\<lparr>merchant := JStr name\<rparr>) s = (Inr a, s')) \<and>
   fst (performFraudAnalysis e Failed tx s) = generateFallbackAnalysis e tx \<and>
   fst (performFraudAnalysis e Unparseable tx s) = generateFallbackAnalysis e tx"
proof (intro conjI)
  show "validateTransaction arrayMerchantTx = []" by (rule validate_array)
  show "fst (tryBlock e reply arrayMerchantTx s) = Inl TypeError"
    by (simp add: tryBlock_throws [OF arrayMerchant_not_string])
  show "generateFallbackAnalysis e arrayMerchantTx = Inl TypeError"
    by (rule generateFallbackAnalysis_other [OF arrayMerchant_not_string])
  show "fst (performFraudAnalysis e reply arrayMerchantTx s) = Inl TypeError"
    by (simp add: performFraudAnalysis_throws [OF arrayMerchant_not_string])
  show "fst (analyzeFraud e reply arrayMerchantTx s) = ServerError"
    by (simp add: analyzeFraud_def validate_array performFraudAnalysis_throws [OF arrayMerchant_not_string])
  show "validateTransaction (tx\<lparr>merchant := JNum (Fin 42)\<rparr>)
     = validateTransaction (tx\<lparr>merchant := JStr ''Best Buy''\<rparr>)"
    by (rule validate_merchant_42)
  have "\<forall>name. merchant (tx\<lparr>merchant := JNum (Fin 42)\<rparr>) \<noteq> JStr name" by simp
  then show "fst (performFraudAnalysis e reply (tx\<lparr>merchant := JNum (Fin 42)\<rparr>) s) = Inl TypeError"
    by (simp add: performFraudAnalysis_throws)
  show "\<exists>a s'. performFraudAnalysis e reply (tx\<lparr>merchant := JStr name\<rparr>) s = (Inr a, s')"
    by (rule performFraudAnalysis_returns [where name = name]) simp
  show "fst (performFraudAnalysis e Failed tx s) = generateFallbackAnalysis e tx"
    by (simp add: performFraudAnalysis_Failed)
  show "fst (performFraudAnalysis e Unparseable tx s) = generateFallbackAnalysis e tx"
    by (simp add: performFraudAnalysis_Unparseable)
qed

lemma exampleTx_merchant: "merchant (exampleTx amt m) = JStr m"
  by (simp add: exampleTx_def)

lemma exampleTx_userId: "userId (exampleTx amt m) = ''user123''"
  by (simp add: exampleTx_def)

lemma fallback_example_best_buy:
  "generateFallbackAnalysis e (exampleTx amt ''Best Buy'')
     = Inr (fallbackVerdict e (exampleTx amt ''Best Buy'') False)"
  by (simp add: generateFallbackAnalysis_string [OF exampleTx_merchant] lower_Best_Buy)

lemma fallback_example_casino:
  "generateFallbackAnalysis e (exampleTx amt ''Casino Royale'')
     = Inr (fallbackVerdict e (exampleTx amt ''Casino Royale'') True)"
  by (simp add: generateFallbackAnalysis_string [OF exampleTx_merchant] lower_Casino_Royale)

lemma score_example_best_buy:
  "fallbackRiskScore (exampleEnv 14) (exampleTx 2500 ''Best Buy'') False = 35"
  by (simp add: fallbackRiskScore_def exampleEnv_def exampleTx_def)

lemma score_example_casino:
  "fallbackRiskScore (exampleEnv 2) (exampleTx 6000 ''Casino Royale'') True = 110"
  by (simp add: fallbackRiskScore_def exampleEnv_def exampleTx_def)

lemma getOrCreate_empty:
  "getOrCreate e uid [] =
     (\<lparr>userId_profile = uid, riskLevel = LOW, totalTransactions = 0,
        suspiciousTransactions = 0, recentSuspiciousActivity = False,
        createdAt = nowISO e, lastUpdated = nowISO e\<rparr>,
      [(uid, \<lparr>userId_profile = uid, riskLevel = LOW, totalTransactions = 0,
        suspiciousTransactions = 0, recentSuspiciousActivity = False,
        createdAt = nowISO e, lastUpdated = nowISO e\<rparr>)])"
  by (simp add: getOrCreate_def createUserProfile_def Let_def)

text \<open>
  Claim C8, as stated, fails: for an amount of 2500 at \<open>Best Buy\<close> at hour 14, with fresh
  stores and a failed oracle request, the verdict is the fallback's and its \<open>riskScore\<close> is
  35, not 20.
\<close>

theorem best_buy_fallback_score_is_not_20:
  "fst (performFraudAnalysis (exampleEnv 14) Failed (exampleTx 2500 ''Best Buy'') emptyState)
     = Inr (fallbackVerdict (exampleEnv 14) (exampleTx 2500 ''Best Buy'') False) \<and>
   generateFallbackAnalysis (exampleEnv 14) (exampleTx 2500 ''Best Buy'')
     = Inr (fallbackVerdict (exampleEnv 14) (exampleTx 2500 ''Best Buy'') False) \<and>
   map_of (fallbackVerdict (exampleEnv 14) (exampleTx 2500 ''Best Buy'') False) ''riskScore''
     = Some (JNum (Fin 35)) \<and>
   map_of (fallbackVerdict (exampleEnv 14) (exampleTx 2500 ''Best Buy'') False) ''riskScore''
     \<noteq> Some (JNum (Fin 20))"
  by (simp add: performFraudAnalysis_Failed fallback_example_best_buy fallback_riskScore
        score_example_best_buy)

text \<open>
  Claim C8, amended. For an amount of 2500 at \<open>Best Buy\<close> at hour 14 with an empty
  history, a failed request and an unparseable reply both yield the fallback verdict, whose
  \<open>riskScore\<close> is 35 (the base 20 plus 15 for an amount above 1000), whose status is
  \<open>Approved\<close> and whose \<open>fallback\<close> flag is true.
\<close>

theorem best_buy_fallback_score_is_35:
  "(let e' = e\<lparr>hour := 14\<rparr>;
        tx' = tx\<lparr>amount := 2500, merchant := JStr ''Best Buy''\<rparr>;
        s' = s\<lparr>transactionHistory := []\<rparr>
    in \<exists>verdict.
         generateFallbackAnalysis e' tx' = Inr verdict \<and>
         fst (performFraudAnalysis e' Failed tx' s') = Inr verdict \<and>
         fst (performFraudAnalysis e' Unparseable tx' s') = Inr verdict \<and>
         map_of verdict ''riskScore'' = Some (JNum (Fin 35)) \<and>
         map_of verdict ''status'' = Some (JStr ''Approved'') \<and>
         map_of verdict ''fallback'' = Some (JBool True))"
proof -
  let ?e = "e\<lparr>hour := 14\<rparr>"
  let ?tx = "tx\<lparr>amount := 2500, merchant := JStr ''Best Buy''\<rparr>"
  have s: "fallbackRiskScore ?e ?tx False = 35" by (simp add: fallbackRiskScore_def)
  have g: "generateFallbackAnalysis ?e ?tx = Inr (fallbackVerdict ?e ?tx False)"
    by (simp add: generateFallbackAnalysis_string [where name = "''Best Buy''"] lower_Best_Buy)
  show ?thesis
    unfolding Let_def
    by (intro exI [where x = "fallbackVerdict ?e ?tx False"])
       (simp add: performFraudAnalysis_Failed performFraudAnalysis_Unparseable g fallback_riskScore
          fallback_status fallback_flag s fallbackStatus_def)
qed

section \<open>Properties of the validation\<close>

lemma isValidAnalysis_iff:
  "(isValidAnalysis v = Inr True) =
     (\<exists>a r st. v = JObj a \<and> map_of a ''hasOwnProperty'' = None \<and>
        map_of a ''riskScore'' = Some (JNum (Fin r)) \<and> 0 \<le> r \<and> r \<le> 100 \<and>
        map_of a ''status'' = Some (JStr st) \<and> st \<in> set [''Approved'', ''Flagged'', ''Denied''] \<and>
        map_of a ''summary'' \<noteq> None \<and> map_of a ''riskFactors'' \<noteq> None)"
proof (cases v)
  case (JObj a)
  show ?thesis
  proof (cases "map_of a ''riskScore''")
    case None
    with JObj show ?thesis by simp
  next
    case (Some x)
    note score = Some
    show ?thesis
    proof (cases x)
      case (JNum n)
      show ?thesis
      proof (cases "map_of a ''status''")
        case None
        with JObj show ?thesis by simp
      next
        case (Some y)
        with JObj score JNum show ?thesis
          by (cases n; cases y) auto
      qed
    qed (use JObj score in auto)
  qed
qed auto

lemma enhance_timestamp:
  "map_of (enhanceAnalysis e a tx pre) ''timestamp'' = Some (JStr (nowISO e))"
  by (simp add: enhanceAnalysis_def Let_def update_conv')

lemma enhance_is_not_fallback: "enhanceAnalysis e a tx pre \<noteq> fallbackVerdict e' tx' risky"
proof
  assume "enhanceAnalysis e a tx pre = fallbackVerdict e' tx' risky"
  then have "map_of (enhanceAnalysis e a tx pre) ''timestamp''
             = map_of (fallbackVerdict e' tx' risky) ''timestamp''"
    by simp
  then show False by (simp add: enhance_timestamp fallback_no_metadata)
qed

lemma performFraudAnalysis_accepted:
  assumes "isValidAnalysis (JObj a) = Inr True"
    and "calculatePreAnalysisRisk e tx
           (filter (\<lambda>t. userId t = userId tx) (transactionHistory s))
           (fst (getOrCreate e (userId tx) (userRiskProfiles s))) = Inr pre"
  shows "fst (performFraudAnalysis e (Parsed (JObj a)) tx s) = Inr (enhanceAnalysis e a tx pre)"
  using tryBlock_accepted [OF assms]
  by (cases "tryBlock e (Parsed (JObj a)) tx s") (simp add: performFraudAnalysis_def)

lemma tryBlock_accepts_iff:
  assumes "merchant tx = JStr name"
  shows "(\<exists>a. fst (tryBlock e reply tx s) = Inr a) =
         (\<exists>v. reply = Parsed v \<and> isValidAnalysis v = Inr True)"
proof (cases reply)
  case Failed
  then show ?thesis using tryBlock_Failed [of e tx s] by auto
next
  case Unparseable
  then show ?thesis using tryBlock_Unparseable [of e tx s] by auto
next
  case (Parsed v)
  show ?thesis
  proof (cases "isValidAnalysis v = Inr True")
    case True
    then obtain a where v: "v = JObj a" using isValidAnalysis_True_obj by blast
    from calculatePreAnalysisRisk_string [OF assms] obtain pre where
      "calculatePreAnalysisRisk e tx
           (filter (\<lambda>t. userId t = userId tx) (transactionHistory s))
           (fst (getOrCreate e (userId tx) (userRiskProfiles s))) = Inr pre"
      by blast
    with True v have "fst (tryBlock e (Parsed v) tx s) = Inr (enhanceAnalysis e a tx pre)"
      by (simp add: tryBlock_accepted del: isValidAnalysis.simps)
    with True Parsed show ?thesis by auto
  next
    case False
    from tryBlock_rejected [OF False] obtain err s' where "tryBlock e (Parsed v) tx s = (Inl err, s')"
      by blast
    with False Parsed show ?thesis by simp
  qed
qed

lemma fallback_returned_iff:
  assumes "merchant tx = JStr name"
  shows "(fst (performFraudAnalysis e reply tx s) = generateFallbackAnalysis e tx) =
         (\<not> (\<exists>v. reply = Parsed v \<and> isValidAnalysis v = Inr True))"
proof (cases reply)
  case Failed
  then show ?thesis by (simp add: performFraudAnalysis_Failed)
next
  case Unparseable
  then show ?thesis by (simp add: performFraudAnalysis_Unparseable)
next
  case (Parsed v)
  show ?thesis
  proof (cases "isValidAnalysis v = Inr True")
    case True
    then obtain a where v: "v = JObj a" using isValidAnalysis_True_obj by blast
    from calculatePreAnalysisRisk_string [OF assms] obtain pre where
      "calculatePreAnalysisRisk e tx
           (filter (\<lambda>t. userId t = userId tx) (transactionHistory s))
           (fst (getOrCreate e (userId tx) (userRiskProfiles s))) = Inr pre"
      by blast
    with True v have "fst (performFraudAnalysis e (Parsed v) tx s) = Inr (enhanceAnalysis e a tx pre)"
      by (simp add: performFraudAnalysis_accepted del: isValidAnalysis.simps)
    with True Parsed show ?thesis
      by (simp add: generateFallbackAnalysis_string [OF assms] enhance_is_not_fallback
            del: isValidAnalysis.simps)
  next
    case False
    with Parsed show ?thesis by (simp add: performFraudAnalysis_rejected)
  qed
qed

text \<open>
  Claim C6, as stated, fails: a reply that parses to an object with a \<open>riskScore\<close> of 50
  and the status \<open>Approved\<close>, and nothing else, meets the three conditions of the claim;
  \<open>isValidAnalysis\<close> rejects it, the body throws, and the verdict is the fallback's.
\<close>

theorem three_conditions_do_not_suffice:
  "isValidAnalysis (JObj [(''riskScore'', JNum (Fin 50)), (''status'', JStr ''Approved'')]) = Inr False \<and>
   fst (tryBlock (exampleEnv 14)
          (Parsed (JObj [(''riskScore'', JNum (Fin 50)), (''status'', JStr ''Approved'')]))
          (exampleTx 2500 ''Best Buy'') emptyState) = Inl InvalidFormat \<and>
   fst (performFraudAnalysis (exampleEnv 14)
          (Parsed (JObj [(''riskScore'', JNum (Fin 50)), (''status'', JStr ''Approved'')]))
          (exampleTx 2500 ''Best Buy'') emptyState)
     = Inr (fallbackVerdict (exampleEnv 14) (exampleTx 2500 ''Best Buy'') False) \<and>
   generateFallbackAnalysis (exampleEnv 14) (exampleTx 2500 ''Best Buy'')
     = Inr (fallbackVerdict (exampleEnv 14) (exampleTx 2500 ''Best Buy'') False)"
proof -
  have rejected: "isValidAnalysis (JObj [(''riskScore'', JNum (Fin 50)), (''status'', JStr ''Approved'')]) = Inr False"
    by simp
  then have "isValidAnalysis (JObj [(''riskScore'', JNum (Fin 50)), (''status'', JStr ''Approved'')]) \<noteq> Inr True"
    by simp
  from performFraudAnalysis_rejected [OF this] rejected show ?thesis
    by (simp add: tryBlock_def Let_def fallback_example_best_buy calculatePreAnalysisRisk_def
          merchantMatches_string exampleTx_merchant split: prod.split)
qed

text \<open>
  Claim C6, amended. A parsed reply passes \<open>isValidAnalysis\<close> exactly when it is an object
  that has properties of its own named \<open>riskScore\<close>, \<open>summary\<close>, \<open>status\<close> and
  \<open>riskFactors\<close> and none named \<open>hasOwnProperty\<close>, whose \<open>riskScore\<close> is a number between 0 and
  100 and whose \<open>status\<close> is one of \<open>Approved\<close>, \<open>Flagged\<close> and \<open>Denied\<close>. For a transaction
  whose merchant is a string, the body of the analysis ends without an error exactly for
  such a reply, and the verdict returned is the fallback's, which exists, exactly for
  every other outcome of the oracle.
\<close>

theorem reply_accepted_iff:
  "(let tx' = tx\<lparr>merchant := JStr name\<rparr>
    in ((isValidAnalysis v = Inr True) =
          (\<exists>a r st. v = JObj a \<and> map_of a ''hasOwnProperty'' = None \<and>
             map_of a ''riskScore'' = Some (JNum (Fin r)) \<and> 0 \<le> r \<and> r \<le> 100 \<and>
             map_of a ''status'' = Some (JStr st) \<and> st \<in> set [''Approved'', ''Flagged'', ''Denied''] \<and>
             map_of a ''summary'' \<noteq> None \<and> map_of a ''riskFactors'' \<noteq> None)) \<and>
       ((\<exists>a. fst (tryBlock e reply tx' s) = Inr a) =
          (\<exists>v. reply = Parsed v \<and> isValidAnalysis v = Inr True)) \<and>
       ((fst (performFraudAnalysis e reply tx' s) = generateFallbackAnalysis e tx') =
          (\<not> (\<exists>v. reply = Parsed v \<and> isValidAnalysis v = Inr True))) \<and>
       (\<exists>verdict. generateFallbackAnalysis e tx' = Inr verdict))"
proof -
  have m: "merchant (tx\<lparr>merchant := JStr name\<rparr>) = JStr name" by simp
  show ?thesis
    unfolding Let_def
    using isValidAnalysis_iff [of v] tryBlock_accepts_iff [OF m, of e reply s]
      fallback_returned_iff [OF m, of e reply s] generateFallbackAnalysis_string [OF m, of e]
    by blast
qed

section \<open>Properties of the enhancement\<close>

lemma fold_update_keys:
  "fst ` set (fold (\<lambda>kv. AList.update (fst kv) (snd kv)) ps base) = fst ` set base \<union> fst ` set ps"
  by (induction ps arbitrary: base) (auto simp add: dom_update)

lemma fold_update_other:
  "k \<notin> fst ` set ps \<Longrightarrow> map_of (fold (\<lambda>kv. AList.update (fst kv) (snd kv)) ps base) k = map_of base k"
  by (induction ps arbitrary: base) (auto simp add: update_conv')

lemma fold_update_supplied:
  "distinct (map fst ps) \<Longrightarrow> (k, x) \<in> set ps \<Longrightarrow>
   map_of (fold (\<lambda>kv. AList.update (fst kv) (snd kv)) ps base) k = Some x"
proof (induction ps arbitrary: base)
  case Nil
  then show ?case by simp
next
  case (Cons p ps)
  show ?case
  proof (cases "(k, x) = p")
    case True
    from Cons.prems(1) have "fst p \<notin> set (map fst ps)" by simp
    with True have "k \<notin> fst ` set ps" by force
    then have "map_of (fold (\<lambda>kv. AList.update (fst kv) (snd kv)) ps (AList.update k x base)) k
               = map_of (AList.update k x base) k"
      by (rule fold_update_other)
    with True show ?thesis by (auto simp add: update_conv')
  next
    case False
    with Cons.prems have "(k, x) \<in> set ps" and "distinct (map fst ps)" by auto
    then show ?thesis using Cons.IH by simp
  qed
qed

lemma spread_onto_keys:
  "fst ` set (spread_onto base v) = fst ` set base \<union> fst ` set (spread_props v)"
  by (simp add: spread_onto_def fold_update_keys)

lemma spread_onto_omitted:
  "k \<notin> fst ` set (spread_props v) \<Longrightarrow> map_of (spread_onto base v) k = map_of base k"
  by (simp add: spread_onto_def fold_update_other)

lemma spread_onto_supplied:
  "distinct (map fst (spread_props v)) \<Longrightarrow> (k, x) \<in> set (spread_props v) \<Longrightarrow>
   map_of (spread_onto base v) k = Some x"
  by (simp add: spread_onto_def fold_update_supplied)

lemma defaultRiskFactors_keys:
  "fst ` set defaultRiskFactors =
     set [''LocationAnomaly'', ''AmountDeviation'', ''MerchantRisk'', ''TimePattern'',
          ''CardUsage'', ''UserBehavior'', ''VelocityCheck'']"
  by (simp add: defaultRiskFactors_def)

lemma defaultRiskFactors_zero:
  "k \<in> set [''LocationAnomaly'', ''AmountDeviation'', ''MerchantRisk'', ''TimePattern'',
             ''CardUsage'', ''UserBehavior'', ''VelocityCheck'']
   \<Longrightarrow> map_of defaultRiskFactors k = Some (JNum (Fin 0))"
  by (auto simp add: defaultRiskFactors_def)

lemma enhance_riskFactors:
  "map_of (enhanceAnalysis e a tx pre) ''riskFactors''
     = Some (JObj (spread_onto defaultRiskFactors (map_of a ''riskFactors'')))"
  by (simp add: enhanceAnalysis_def Let_def update_conv')

lemma exampleFields_valid:
  "isValidAnalysis (JObj (exampleFields 100 ''Denied'' factors)) = Inr True"
  by (simp add: exampleFields_def)

lemma exampleFields_riskFactors: "map_of (exampleFields score st factors) ''riskFactors'' = Some factors"
  by (simp add: exampleFields_def)

lemma spread_extraFactors:
  "spread_props (Some extraFactors) = [(''CardUsage'', JNum (Fin 7)), (''DeviceRisk'', JNum (Fin 55))]"
  by (simp add: spread_props_def extraFactors_def)

lemma spread_onto_extraFactors:
  "spread_onto defaultRiskFactors (Some extraFactors) =
     [(''LocationAnomaly'', JNum (Fin 0)),
      (''AmountDeviation'', JNum (Fin 0)),
      (''MerchantRisk'', JNum (Fin 0)),
      (''TimePattern'', JNum (Fin 0)),
      (''CardUsage'', JNum (Fin 7)),
      (''UserBehavior'', JNum (Fin 0)),
      (''VelocityCheck'', JNum (Fin 0)),
      (''DeviceRisk'', JNum (Fin 55))]"
  by (simp add: spread_onto_def spread_extraFactors defaultRiskFactors_def)

lemma pre_example_casino:
  "calculatePreAnalysisRisk (exampleEnv 2) (exampleTx 6000 ''Casino Royale'') [] p =
     Inr [(''amountAnomaly'', JNum (Fin 0)),
          (''locationAnomaly'', JNum (Fin 0)),
          (''timeAnomaly'', JNum (Fin 40)),
          (''velocityRisk'', JNum (Fin 0)),
          (''merchantRisk'', JNum (Fin 80))]"
  by (simp add: calculatePreAnalysisRisk_def merchantMatches_string exampleTx_merchant
        lower_Casino_Royale exampleEnv_def)

text \<open>
  Claim C5, as stated, fails: a reply accepted by the validation whose \<open>riskFactors\<close> names
  \<open>CardUsage\<close> and \<open>DeviceRisk\<close> is enhanced to a verdict whose \<open>riskFactors\<close> has eight
  keys, \<open>DeviceRisk\<close> among them.
\<close>

theorem extra_risk_factor_leaks:
  "isValidAnalysis (JObj (exampleFields 100 ''Denied'' extraFactors)) = Inr True \<and>
   fst (performFraudAnalysis (exampleEnv 2) (Parsed (JObj (exampleFields 100 ''Denied'' extraFactors)))
          (exampleTx 6000 ''Casino Royale'') emptyState)
     = Inr (enhanceAnalysis (exampleEnv 2) (exampleFields 100 ''Denied'' extraFactors)
              (exampleTx 6000 ''Casino Royale'')
              [(''amountAnomaly'', JNum (Fin 0)),
               (''locationAnomaly'', JNum (Fin 0)),
               (''timeAnomaly'', JNum (Fin 40)),
               (''velocityRisk'', JNum (Fin 0)),
               (''merchantRisk'', JNum (Fin 80))]) \<and>
   map_of (enhanceAnalysis (exampleEnv 2) (exampleFields 100 ''Denied'' extraFactors)
              (exampleTx 6000 ''Casino Royale'')
              [(''amountAnomaly'', JNum (Fin 0)),
               (''locationAnomaly'', JNum (Fin 0)),
               (''timeAnomaly'', JNum (Fin 40)),
               (''velocityRisk'', JNum (Fin 0)),
               (''merchantRisk'', JNum (Fin 80))]) ''riskFactors''
     = Some (JObj [(''LocationAnomaly'', JNum (Fin 0)),
                   (''AmountDeviation'', JNum (Fin 0)),
                   (''MerchantRisk'', JNum (Fin 0)),
                   (''TimePattern'', JNum (Fin 0)),
                   (''CardUsage'', JNum (Fin 7)),
                   (''UserBehavior'', JNum (Fin 0)),
                   (''VelocityCheck'', JNum (Fin 0)),
                   (''DeviceRisk'', JNum (Fin 55))])"
proof (intro conjI)
  show "isValidAnalysis (JObj (exampleFields 100 ''Denied'' extraFactors)) = Inr True"
    by (rule exampleFields_valid)
  show "fst (performFraudAnalysis (exampleEnv 2) (Parsed (JObj (exampleFields 100 ''Denied'' extraFactors)))
          (exampleTx 6000 ''Casino Royale'') emptyState)
     = Inr (enhanceAnalysis (exampleEnv 2) (exampleFields 100 ''Denied'' extraFactors)
              (exampleTx 6000 ''Casino Royale'')
              [(''amountAnomaly'', JNum (Fin 0)),
               (''locationAnomaly'', JNum (Fin 0)),
               (''timeAnomaly'', JNum (Fin 40)),
               (''velocityRisk'', JNum (Fin 0)),
               (''merchantRisk'', JNum (Fin 80))])"
    by (rule performFraudAnalysis_accepted [OF exampleFields_valid])
       (simp add: emptyState_def pre_example_casino)
  show "map_of (enhanceAnalysis (exampleEnv 2) (exampleFields 100 ''Denied'' extraFactors)
              (exampleTx 6000 ''Casino Royale'')
              [(''amountAnomaly'', JNum (Fin 0)),
               (''locationAnomaly'', JNum (Fin 0)),
               (''timeAnomaly'', JNum (Fin 40)),
               (''velocityRisk'', JNum (Fin 0)),
               (''merchantRisk'', JNum (Fin 80))]) ''riskFactors''
     = Some (JObj [(''LocationAnomaly'', JNum (Fin 0)),
                   (''AmountDeviation'', JNum (Fin 0)),
                   (''MerchantRisk'', JNum (Fin 0)),
                   (''TimePattern'', JNum (Fin 0)),
                   (''CardUsage'', JNum (Fin 7)),
                   (''UserBehavior'', JNum (Fin 0)),
                   (''VelocityCheck'', JNum (Fin 0)),
                   (''DeviceRisk'', JNum (Fin 55))])"
    by (simp add: enhance_riskFactors exampleFields_riskFactors spread_onto_extraFactors)
qed

lemma exampleTx_string: "(exampleTx amt m)\<lparr>merchant := JStr m\<rparr> = exampleTx amt m"
  by (simp add: exampleTx_def)

text \<open>
  Claim C5, amended. For every reply accepted by the validation and every transaction
  whose merchant is a string, the \<open>riskFactors\<close> of the verdict returned is an object whose
  keys are the seven named factors together with the keys the spread of the reply's
  \<open>riskFactors\<close> copies; each of the seven that the reply does not supply is present with
  the value 0; and, the supplied keys being distinct, each supplied key carries the reply's
  value, whether it is one of the seven or not.
\<close>

theorem enhanced_riskFactors_complete:
  assumes "isValidAnalysis (JObj a) = Inr True"
  shows "\<exists>verdict rf.
           fst (performFraudAnalysis e (Parsed (JObj a)) (tx\<lparr>merchant := JStr name\<rparr>) s) = Inr verdict \<and>
           map_of verdict ''riskFactors'' = Some (JObj rf) \<and>
           fst ` set rf =
             set [''LocationAnomaly'', ''AmountDeviation'', ''MerchantRisk'', ''TimePattern'',
                  ''CardUsage'', ''UserBehavior'', ''VelocityCheck'']
             \<union> fst ` set (spread_props (map_of a ''riskFactors'')) \<and>
           (\<forall>k \<in> set [''LocationAnomaly'', ''AmountDeviation'', ''MerchantRisk'', ''TimePattern'',
                       ''CardUsage'', ''UserBehavior'', ''VelocityCheck''].
              k \<notin> fst ` set (spread_props (map_of a ''riskFactors'')) \<longrightarrow>
              map_of rf k = Some (JNum (Fin 0))) \<and>
           (distinct (map fst (spread_props (map_of a ''riskFactors''))) \<longrightarrow>
              (\<forall>kv \<in> set (spread_props (map_of a ''riskFactors'')). map_of rf (fst kv) = Some (snd kv)))"
proof -
  let ?rf = "spread_onto defaultRiskFactors (map_of a ''riskFactors'')"
  have keys: "fst ` set ?rf =
      set [''LocationAnomaly'', ''AmountDeviation'', ''MerchantRisk'', ''TimePattern'',
           ''CardUsage'', ''UserBehavior'', ''VelocityCheck'']
      \<union> fst ` set (spread_props (map_of a ''riskFactors''))"
    by (simp only: spread_onto_keys defaultRiskFactors_keys)
  have omitted: "\<forall>k \<in> set [''LocationAnomaly'', ''AmountDeviation'', ''MerchantRisk'', ''TimePattern'',
                       ''CardUsage'', ''UserBehavior'', ''VelocityCheck''].
              k \<notin> fst ` set (spread_props (map_of a ''riskFactors'')) \<longrightarrow>
              map_of ?rf k = Some (JNum (Fin 0))"
  proof (intro ballI impI)
    fix k
    assume k: "k \<in> set [''LocationAnomaly'', ''AmountDeviation'', ''MerchantRisk'', ''TimePattern'',
                       ''CardUsage'', ''UserBehavior'', ''VelocityCheck'']"
      and nk: "k \<notin> fst ` set (spread_props (map_of a ''riskFactors''))"
    from nk have "map_of ?rf k = map_of defaultRiskFactors k"
      by (rule spread_onto_omitted)
    with defaultRiskFactors_zero [OF k] show "map_of ?rf k = Some (JNum (Fin 0))"
      by simp
  qed
  have supplied: "distinct (map fst (spread_props (map_of a ''riskFactors''))) \<longrightarrow>
      (\<forall>kv \<in> set (spread_props (map_of a ''riskFactors'')). map_of ?rf (fst kv) = Some (snd kv))"
  proof (intro ballI impI)
    fix kv
    assume d: "distinct (map fst (spread_props (map_of a ''riskFactors'')))"
      and "kv \<in> set (spread_props (map_of a ''riskFactors''))"
    then have "(fst kv, snd kv) \<in> set (spread_props (map_of a ''riskFactors''))" by simp
    from spread_onto_supplied [OF d this] show "map_of ?rf (fst kv) = Some (snd kv)" .
  qed
  let ?tx = "tx\<lparr>merchant := JStr name\<rparr>"
  have "merchant ?tx = JStr name" by simp
  from calculatePreAnalysisRisk_string [OF this] obtain pre where
    pre: "calculatePreAnalysisRisk e ?tx
           (filter (\<lambda>t. userId t = userId ?tx) (transactionHistory s))
           (fst (getOrCreate e (userId ?tx) (userRiskProfiles s))) = Inr pre"
    by blast
  have returned: "fst (performFraudAnalysis e (Parsed (JObj a)) ?tx s) =
     Inr (enhanceAnalysis e a ?tx pre)"
    using assms pre by (rule performFraudAnalysis_accepted)
  show ?thesis
    apply (rule exI [where x = "enhanceAnalysis e a ?tx pre"])
    apply (rule exI [where x = "?rf"])
    using returned enhance_riskFactors keys omitted supplied
    apply (intro conjI)
        apply assumption
       apply (rule enhance_riskFactors)
      apply assumption+
    done
qed

theorem enhanced_riskFactors_complete_witness:
  "isValidAnalysis (JObj (exampleFields 100 ''Denied'' extraFactors)) = Inr True \<and>
   (\<exists>verdict rf.
      fst (performFraudAnalysis (exampleEnv 2)
             (Parsed (JObj (exampleFields 100 ''Denied'' extraFactors)))
             (exampleTx 6000 ''Casino Royale'') emptyState) = Inr verdict \<and>
      map_of verdict ''riskFactors'' = Some (JObj rf) \<and>
      map_of rf ''LocationAnomaly'' = Some (JNum (Fin 0)) \<and>
      map_of rf ''CardUsage'' = Some (JNum (Fin 7)) \<and>
      ''DeviceRisk'' \<in> fst ` set rf)"
proof -
  from enhanced_riskFactors_complete [OF exampleFields_valid [of extraFactors],
          where e = "exampleEnv 2" and tx = "exampleTx 6000 ''Casino Royale''"
            and name = "''Casino Royale''" and s = emptyState]
  obtain verdict rf where
    v: "fst (performFraudAnalysis (exampleEnv 2)
             (Parsed (JObj (exampleFields 100 ''Denied'' extraFactors)))
             (exampleTx 6000 ''Casino Royale'') emptyState) = Inr verdict"
    and rf: "map_of verdict ''riskFactors'' = Some (JObj rf)"
    and keys: "fst ` set rf =
             set [''LocationAnomaly'', ''AmountDeviation'', ''MerchantRisk'', ''TimePattern'',
                  ''CardUsage'', ''UserBehavior'', ''VelocityCheck'']
             \<union> fst ` set (spread_props (map_of (exampleFields 100 ''Denied'' extraFactors) ''riskFactors''))"
    and omitted: "\<forall>k \<in> set [''LocationAnomaly'', ''AmountDeviation'', ''MerchantRisk'', ''TimePattern'',
                       ''CardUsage'', ''UserBehavior'', ''VelocityCheck''].
              k \<notin> fst ` set (spread_props (map_of (exampleFields 100 ''Denied'' extraFactors) ''riskFactors'')) \<longrightarrow>
              map_of rf k = Some (JNum (Fin 0))"
    and supplied: "distinct (map fst (spread_props (map_of (exampleFields 100 ''Denied'' extraFactors) ''riskFactors''))) \<longrightarrow>
              (\<forall>kv \<in> set (spread_props (map_of (exampleFields 100 ''Denied'' extraFactors) ''riskFactors'')).
                 map_of rf (fst kv) = Some (snd kv))"
    unfolding exampleTx_string by blast
  from omitted have "map_of rf ''LocationAnomaly'' = Some (JNum (Fin 0))"
    by (simp add: exampleFields_riskFactors spread_extraFactors)
  moreover from supplied have "map_of rf ''CardUsage'' = Some (JNum (Fin 7))"
    by (simp add: exampleFields_riskFactors spread_extraFactors)
  moreover from keys have "''DeviceRisk'' \<in> fst ` set rf"
    by (simp add: exampleFields_riskFactors spread_extraFactors)
  ultimately show ?thesis using v rf exampleFields_valid by blast
qed

section \<open>Properties of the fraud patterns\<close>

lemma num_prop_scored: "num_prop (scored r) ''riskScore'' = Fin r"
  by (simp add: num_prop_def scored_def)

lemma updateFraudPatterns_noop:
  "\<not> js_gt (num_prop a ''riskScore'') 80 \<Longrightarrow> updateFraudPatterns e tx a ps = ps"
  by (simp add: updateFraudPatterns_def)

lemma updateFraudPatterns_first:
  assumes "js_gt (num_prop a ''riskScore'') 80" and "map_of ps (patternKey tx) = None"
  shows "map_of (updateFraudPatterns e tx a ps) (patternKey tx) =
           Some \<lparr>count = 1, avgRisk = js_div (js_add (Fin 0) (num_prop a ''riskScore'')) 2,
                 lastSeen = Some (nowISO e)\<rparr>"
  using assms by (simp add: updateFraudPatterns_def Let_def update_conv')

lemma updateFraudPatterns_next:
  assumes "js_gt (num_prop a ''riskScore'') 80" and "map_of ps (patternKey tx) = Some p"
  shows "map_of (updateFraudPatterns e tx a ps) (patternKey tx) =
           Some (p\<lparr>count := count p + 1,
                   avgRisk := js_div (js_add (avgRisk p) (num_prop a ''riskScore'')) 2,
                   lastSeen := Some (nowISO e)\<rparr>)"
  using assms by (simp add: updateFraudPatterns_def Let_def update_conv')

lemma updateFraudPatterns_first_scored:
  "80 < r \<Longrightarrow>
   updateFraudPatterns e tx (scored r) [] =
     [(patternKey tx, \<lparr>count = 1, avgRisk = Fin (r / 2), lastSeen = Some (nowISO e)\<rparr>)]"
  by (simp add: updateFraudPatterns_def Let_def num_prop_scored)

lemma updateFraudPatterns_next_scored:
  "80 < r \<Longrightarrow>
   updateFraudPatterns e tx (scored r) [(patternKey tx, \<lparr>count = n, avgRisk = Fin x, lastSeen = l\<rparr>)] =
     [(patternKey tx, \<lparr>count = n + 1, avgRisk = Fin ((x + r) / 2), lastSeen = Some (nowISO e)\<rparr>)]"
  by (simp add: updateFraudPatterns_def Let_def num_prop_scored)

lemma record_90:
  "updateFraudPatterns e tx (scored 90) [] =
     [(patternKey tx, \<lparr>count = 1, avgRisk = Fin 45, lastSeen = Some (nowISO e)\<rparr>)]"
  by (simp add: updateFraudPatterns_first_scored)

lemma record_90_100:
  "updateFraudPatterns e tx (scored 100) (updateFraudPatterns e tx (scored 90) []) =
     [(patternKey tx, \<lparr>count = 2, avgRisk = Fin (145 / 2), lastSeen = Some (nowISO e)\<rparr>)]"
  by (simp add: record_90 updateFraudPatterns_next_scored)

text \<open>
  Claim C4, as stated, fails: the first record of a key, at \<open>riskScore\<close> 90, stores the
  count 1 and the \<open>avgRisk\<close> 45, not 90; a second record of the same key at 100 stores
  the count 2 and the \<open>avgRisk\<close> 72.5, not 95; and a third record at 50 is below the
  threshold and changes nothing.
\<close>

theorem first_record_halves_the_score:
  "updateFraudPatterns (exampleEnv 2) (exampleTx 6000 ''Casino Royale'') (scored 90) [] =
     [(patternKey (exampleTx 6000 ''Casino Royale''),
       \<lparr>count = 1, avgRisk = Fin 45, lastSeen = Some (nowISO (exampleEnv 2))\<rparr>)] \<and>
   updateFraudPatterns (exampleEnv 2) (exampleTx 6000 ''Casino Royale'') (scored 100)
     (updateFraudPatterns (exampleEnv 2) (exampleTx 6000 ''Casino Royale'') (scored 90) []) =
     [(patternKey (exampleTx 6000 ''Casino Royale''),
       \<lparr>count = 2, avgRisk = Fin (145 / 2), lastSeen = Some (nowISO (exampleEnv 2))\<rparr>)] \<and>
   updateFraudPatterns (exampleEnv 2) (exampleTx 6000 ''Casino Royale'') (scored 50)
     [(patternKey (exampleTx 6000 ''Casino Royale''),
       \<lparr>count = 2, avgRisk = Fin (145 / 2), lastSeen = Some (nowISO (exampleEnv 2))\<rparr>)] =
     [(patternKey (exampleTx 6000 ''Casino Royale''),
       \<lparr>count = 2, avgRisk = Fin (145 / 2), lastSeen = Some (nowISO (exampleEnv 2))\<rparr>)] \<and>
   Fin 45 \<noteq> Fin 90 \<and> Fin (145 / 2) \<noteq> Fin 95"
proof (intro conjI)
  show "Fin 45 \<noteq> Fin 90" by simp
  show "Fin (145 / 2) \<noteq> Fin 95" by simp
  show "updateFraudPatterns (exampleEnv 2) (exampleTx 6000 ''Casino Royale'') (scored 50)
     [(patternKey (exampleTx 6000 ''Casino Royale''),
       \<lparr>count = 2, avgRisk = Fin (145 / 2), lastSeen = Some (nowISO (exampleEnv 2))\<rparr>)] =
     [(patternKey (exampleTx 6000 ''Casino Royale''),
       \<lparr>count = 2, avgRisk = Fin (145 / 2), lastSeen = Some (nowISO (exampleEnv 2))\<rparr>)]"
    by (rule updateFraudPatterns_noop) (simp add: num_prop_scored)
qed (rule record_90, rule record_90_100)

text \<open>
  Claim C4, amended. \<open>updateFraudPatterns\<close> changes nothing unless the \<open>riskScore\<close> is above
  80. Above 80, the first record of a key stores a pattern of count 1, and a record of a
  key already stored adds one to its count and sets its \<open>avgRisk\<close> to half the sum of the
  stored \<open>avgRisk\<close> and the \<open>riskScore\<close>. Recording 90 and then 100 for one key gives the count
  2, and a third record at 50 leaves the store as it is.
\<close>

theorem updateFraudPatterns_aggregates:
  "(\<not> js_gt (num_prop a ''riskScore'') 80 \<longrightarrow> updateFraudPatterns e tx a ps = ps) \<and>
   (js_gt (num_prop a ''riskScore'') 80 \<and> map_of ps (patternKey tx) = None \<longrightarrow>
      (\<exists>p'. map_of (updateFraudPatterns e tx a ps) (patternKey tx) = Some p' \<and> count p' = 1)) \<and>
   (js_gt (num_prop a ''riskScore'') 80 \<and> map_of ps (patternKey tx) = Some p \<longrightarrow>
      (\<exists>p'. map_of (updateFraudPatterns e tx a ps) (patternKey tx) = Some p' \<and>
            count p' = count p + 1 \<and>
            avgRisk p' = js_div (js_add (avgRisk p) (num_prop a ''riskScore'')) 2)) \<and>
   (num_prop a ''riskScore'' = Fin r \<and> 80 < r \<and> map_of ps (patternKey tx) = Some p \<and>
    avgRisk p = Fin x \<longrightarrow>
      (\<exists>p'. map_of (updateFraudPatterns e tx a ps) (patternKey tx) = Some p' \<and>
            avgRisk p' = Fin ((x + r) / 2))) \<and>
   (let twice = updateFraudPatterns e tx (scored 100) (updateFraudPatterns e tx (scored 90) [])
    in map (\<lambda>kv. (fst kv, count (snd kv))) twice = [(patternKey tx, 2)] \<and>
       updateFraudPatterns e tx (scored 50) twice = twice)"
proof (intro conjI impI)
  assume "\<not> js_gt (num_prop a ''riskScore'') 80"
  then show "updateFraudPatterns e tx a ps = ps" by (rule updateFraudPatterns_noop)
next
  assume "js_gt (num_prop a ''riskScore'') 80 \<and> map_of ps (patternKey tx) = None"
  then show "\<exists>p'. map_of (updateFraudPatterns e tx a ps) (patternKey tx) = Some p' \<and> count p' = 1"
    by (simp add: updateFraudPatterns_first)
next
  assume "js_gt (num_prop a ''riskScore'') 80 \<and> map_of ps (patternKey tx) = Some p"
  then show "\<exists>p'. map_of (updateFraudPatterns e tx a ps) (patternKey tx) = Some p' \<and>
            count p' = count p + 1 \<and>
            avgRisk p' = js_div (js_add (avgRisk p) (num_prop a ''riskScore'')) 2"
    by (simp add: updateFraudPatterns_next)
next
  assume "num_prop a ''riskScore'' = Fin r \<and> 80 < r \<and> map_of ps (patternKey tx) = Some p \<and>
    avgRisk p = Fin x"
  then show "\<exists>p'. map_of (updateFraudPatterns e tx a ps) (patternKey tx) = Some p' \<and>
            avgRisk p' = Fin ((x + r) / 2)"
    by (simp add: updateFraudPatterns_next)
next
  show "let twice = updateFraudPatterns e tx (scored 100) (updateFraudPatterns e tx (scored 90) [])
    in map (\<lambda>kv. (fst kv, count (snd kv))) twice = [(patternKey tx, 2)] \<and>
       updateFraudPatterns e tx (scored 50) twice = twice"
    by (simp add: record_90_100 updateFraudPatterns_noop num_prop_scored)
qed

theorem updateFraudPatterns_aggregates_witness:
  "\<not> js_gt (num_prop (scored 50) ''riskScore'') 80 \<and>
   updateFraudPatterns (exampleEnv 2) (exampleTx 6000 ''Casino Royale'') (scored 50) [] = [] \<and>
   js_gt (num_prop (scored 90) ''riskScore'') 80 \<and>
   map_of ([] :: (string \<times> pattern) list) (patternKey (exampleTx 6000 ''Casino Royale'')) = None \<and>
   (\<exists>p'. map_of (updateFraudPatterns (exampleEnv 2) (exampleTx 6000 ''Casino Royale'') (scored 90) [])
            (patternKey (exampleTx 6000 ''Casino Royale'')) = Some p' \<and> count p' = 1) \<and>
   num_prop (scored 100) ''riskScore'' = Fin 100 \<and> (80 :: rat) < 100 \<and>
   map_of [(patternKey (exampleTx 6000 ''Casino Royale''),
            \<lparr>count = 1, avgRisk = Fin 45, lastSeen = None\<rparr>)]
     (patternKey (exampleTx 6000 ''Casino Royale''))
     = Some \<lparr>count = 1, avgRisk = Fin 45, lastSeen = None\<rparr> \<and>
   (\<exists>p'. map_of (updateFraudPatterns (exampleEnv 2) (exampleTx 6000 ''Casino Royale'') (scored 100)
                   [(patternKey (exampleTx 6000 ''Casino Royale''),
                     \<lparr>count = 1, avgRisk = Fin 45, lastSeen = None\<rparr>)])
            (patternKey (exampleTx 6000 ''Casino Royale'')) = Some p' \<and>
          count p' = 2 \<and> avgRisk p' = Fin (145 / 2))"
proof -
  note skipped = updateFraudPatterns_aggregates
          [where a = "scored 50" and e = "exampleEnv 2" and tx = "exampleTx 6000 ''Casino Royale''"
             and ps = "[]"]
  note created = updateFraudPatterns_aggregates
          [where a = "scored 90" and e = "exampleEnv 2" and tx = "exampleTx 6000 ''Casino Royale''"
             and ps = "[]"]
  note averaged = updateFraudPatterns_aggregates
          [where a = "scored 100" and e = "exampleEnv 2" and tx = "exampleTx 6000 ''Casino Royale''"
             and ps = "[(patternKey (exampleTx 6000 ''Casino Royale''),
                         \<lparr>count = 1, avgRisk = Fin 45, lastSeen = None\<rparr>)]"
             and p = "\<lparr>count = 1, avgRisk = Fin 45, lastSeen = None\<rparr>"
             and r = 100 and x = 45]
  have a: "updateFraudPatterns (exampleEnv 2) (exampleTx 6000 ''Casino Royale'') (scored 50) [] = []"
    using skipped by (simp add: num_prop_scored)
  have b: "\<exists>p'. map_of (updateFraudPatterns (exampleEnv 2) (exampleTx 6000 ''Casino Royale'') (scored 90) [])
            (patternKey (exampleTx 6000 ''Casino Royale'')) = Some p' \<and> count p' = 1"
    using created by (simp add: num_prop_scored)
  have c: "\<exists>p'. map_of (updateFraudPatterns (exampleEnv 2) (exampleTx 6000 ''Casino Royale'') (scored 100)
                   [(patternKey (exampleTx 6000 ''Casino Royale''),
                     \<lparr>count = 1, avgRisk = Fin 45, lastSeen = None\<rparr>)])
            (patternKey (exampleTx 6000 ''Casino Royale'')) = Some p' \<and>
          count p' = 2 \<and> avgRisk p' = Fin (145 / 2)"
    using averaged by (auto simp add: num_prop_scored numeral_2_eq_2)
  from a b c show ?thesis by (simp add: num_prop_scored)
qed

section \<open>Properties of the profiles\<close>

lemma list_all_update:
  "list_all P ps \<Longrightarrow> P (k, v) \<Longrightarrow> list_all P (AList.update k v ps)"
  by (induction ps) auto

lemma list_all_map_of:
  "list_all P ps \<Longrightarrow> map_of ps k = Some v \<Longrightarrow> P (k, v)"
  by (auto simp add: list_all_iff dest: map_of_SomeD)

lemma getOrCreate_map_of:
  "map_of (snd (getOrCreate e uid ps)) = (map_of ps)(uid \<mapsto> fst (getOrCreate e uid ps))"
  by (auto simp add: getOrCreate_def createUserProfile_def Let_def update_conv' fun_eq_iff
        split: option.split)

lemma getOrCreate_counts:
  assumes "list_all (\<lambda>kv. suspiciousTransactions (snd kv) \<le> totalTransactions (snd kv)) ps"
  shows "suspiciousTransactions (fst (getOrCreate e uid ps)) \<le> totalTransactions (fst (getOrCreate e uid ps))"
    and "list_all (\<lambda>kv. suspiciousTransactions (snd kv) \<le> totalTransactions (snd kv))
           (snd (getOrCreate e uid ps))"
proof -
  show "suspiciousTransactions (fst (getOrCreate e uid ps)) \<le> totalTransactions (fst (getOrCreate e uid ps))"
  proof (cases "map_of ps uid")
    case None
    then show ?thesis by (simp add: getOrCreate_def createUserProfile_def Let_def)
  next
    case (Some p)
    with list_all_map_of [OF assms Some] show ?thesis by (simp add: getOrCreate_def)
  qed
  show "list_all (\<lambda>kv. suspiciousTransactions (snd kv) \<le> totalTransactions (snd kv))
           (snd (getOrCreate e uid ps))"
  proof (cases "map_of ps uid")
    case None
    with assms show ?thesis
      by (simp add: getOrCreate_def createUserProfile_def Let_def list_all_update)
  next
    case (Some p)
    with assms show ?thesis by (simp add: getOrCreate_def)
  qed
qed

lemma updateUserProfile_recorded:
  "updateUserProfile e uid tx a ps =
     AList.update uid (recorded e a (fst (getOrCreate e uid ps))) (snd (getOrCreate e uid ps))"
  by (cases "getOrCreate e uid ps")
     (simp add: updateUserProfile_def recorded_def Let_def)

lemma recorded_fields:
  "totalTransactions (recorded e a p0) = totalTransactions p0 + 1"
  "suspiciousTransactions (recorded e a p0) =
     suspiciousTransactions p0 + (if js_gt (num_prop a ''riskScore'') 70 then 1 else 0)"
  "recentSuspiciousActivity (recorded e a p0) =
     (recentSuspiciousActivity p0 \<or> js_gt (num_prop a ''riskScore'') 70)"
  by (simp_all add: recorded_def Let_def)

lemma js_gt_ratio:
  "n \<noteq> 0 \<Longrightarrow> js_gt (js_div (Fin (of_nat s)) (of_nat n)) c = (c < of_nat s / of_nat n)"
  by simp

lemma recorded_riskLevel:
  "riskLevel (recorded e a p0) =
     (if 3 / 10 < (of_nat (suspiciousTransactions (recorded e a p0))
                   / of_nat (totalTransactions (recorded e a p0)) :: rat)
      then HIGH
      else if 1 / 10 < (of_nat (suspiciousTransactions (recorded e a p0))
                        / of_nat (totalTransactions (recorded e a p0)) :: rat)
      then MEDIUM
      else LOW)"
proof -
  have n: "totalTransactions p0 + 1 \<noteq> 0" by simp
  have "riskLevel (recorded e a p0) =
     (if js_gt (js_div (Fin (of_nat (suspiciousTransactions (recorded e a p0))))
                  (of_nat (totalTransactions p0 + 1))) (3 / 10) then HIGH
      else if js_gt (js_div (Fin (of_nat (suspiciousTransactions (recorded e a p0))))
                  (of_nat (totalTransactions p0 + 1))) (1 / 10) then MEDIUM
      else LOW)"
    by (simp add: recorded_def Let_def del: js_div.simps js_gt.simps of_nat_add of_nat_Suc)
  then show ?thesis
    by (simp only: js_gt_ratio [OF n] recorded_fields(1))
qed

lemma recorded_counts:
  "suspiciousTransactions p0 \<le> totalTransactions p0 \<Longrightarrow>
   suspiciousTransactions (recorded e a p0) \<le> totalTransactions (recorded e a p0)"
  by (simp add: recorded_fields)

lemma updateUserProfile_counts:
  assumes "list_all (\<lambda>kv. suspiciousTransactions (snd kv) \<le> totalTransactions (snd kv)) ps"
  shows "list_all (\<lambda>kv. suspiciousTransactions (snd kv) \<le> totalTransactions (snd kv))
           (updateUserProfile e uid tx a ps)"
  unfolding updateUserProfile_recorded
  using getOrCreate_counts [OF assms, of e uid]
  by (intro list_all_update) (simp_all add: recorded_counts)

lemma fold_applyProfileOp_counts:
  "list_all (\<lambda>kv. suspiciousTransactions (snd kv) \<le> totalTransactions (snd kv)) ps \<Longrightarrow>
   list_all (\<lambda>kv. suspiciousTransactions (snd kv) \<le> totalTransactions (snd kv))
     (fold applyProfileOp ops ps)"
proof (induction ops arbitrary: ps)
  case Nil
  then show ?case by simp
next
  case (Cons x ops)
  have "list_all (\<lambda>kv. suspiciousTransactions (snd kv) \<le> totalTransactions (snd kv))
          (applyProfileOp x ps)"
    using Cons.prems
    by (cases x) (simp_all add: getOrCreate_counts updateUserProfile_counts)
  then show ?case using Cons.IH by simp
qed

lemma runProfileOps_counts:
  "list_all (\<lambda>kv. suspiciousTransactions (snd kv) \<le> totalTransactions (snd kv)) (runProfileOps ops)"
  by (simp add: runProfileOps_def fold_applyProfileOp_counts)

lemma getOrCreate_fst:
  "fst (getOrCreate e uid ps) =
     (case map_of ps uid of
        Some p \<Rightarrow> p
      | None \<Rightarrow> \<lparr>userId_profile = uid, riskLevel = LOW, totalTransactions = 0,
                  suspiciousTransactions = 0, recentSuspiciousActivity = False,
                  createdAt = nowISO e, lastUpdated = nowISO e\<rparr>)"
  by (simp add: getOrCreate_def createUserProfile_def Let_def split: option.split)

lemma countersOf_getOrCreate: "countersOf (snd (getOrCreate e u ps)) uid = countersOf ps uid"
  by (simp add: countersOf_def getOrCreate_map_of getOrCreate_fst split: option.split)

lemma countersOf_update_other:
  "u \<noteq> uid \<Longrightarrow> countersOf (updateUserProfile e u tx a ps) uid = countersOf ps uid"
  by (simp add: countersOf_def updateUserProfile_recorded update_conv' getOrCreate_map_of)

lemma countersOf_update_same:
  "countersOf (updateUserProfile e uid tx a ps) uid =
     (fst (countersOf ps uid) + 1,
      fst (snd (countersOf ps uid)) + (if js_gt (num_prop a ''riskScore'') 70 then 1 else 0),
      snd (snd (countersOf ps uid)) \<or> js_gt (num_prop a ''riskScore'') 70)"
  by (simp add: countersOf_def updateUserProfile_recorded update_conv' recorded_fields
        getOrCreate_fst split: option.split)

lemma countersOf_fold:
  "countersOf (fold applyProfileOp later ps) uid =
     (fst (countersOf ps uid) + length (outcomesFor uid later),
      fst (snd (countersOf ps uid))
        + length (filter (\<lambda>a. js_gt (num_prop a ''riskScore'') 70) (outcomesFor uid later)),
      snd (snd (countersOf ps uid))
        \<or> 0 < length (filter (\<lambda>a. js_gt (num_prop a ''riskScore'') 70) (outcomesFor uid later)))"
proof (induction later arbitrary: ps)
  case Nil
  then show ?case by simp
next
  case (Cons x later)
  show ?case
  proof (cases x)
    case (GetOrCreate e u)
    then show ?thesis by (simp add: Cons.IH countersOf_getOrCreate)
  next
    case (RecordOutcome e u tx a)
    show ?thesis
    proof (cases "u = uid")
      case True
      with RecordOutcome show ?thesis
        by (simp add: Cons.IH countersOf_update_same del: js_gt.simps)
    next
      case False
      with RecordOutcome show ?thesis
        by (simp add: Cons.IH countersOf_update_other)
    qed
  qed
qed

lemma applyProfileOp_keeps: "dom (map_of ps) \<subseteq> dom (map_of (applyProfileOp x ps))"
  by (cases x) (auto simp add: getOrCreate_map_of updateUserProfile_recorded update_conv')

lemma fold_applyProfileOp_keeps: "dom (map_of ps) \<subseteq> dom (map_of (fold applyProfileOp later ps))"
proof (induction later arbitrary: ps)
  case Nil
  then show ?case by simp
next
  case (Cons x later)
  from applyProfileOp_keeps [of ps x] Cons.IH [of "applyProfileOp x ps"] show ?case
    by (simp del: applyProfileOp.simps)
qed

lemma runProfileOps_append:
  "runProfileOps (ops @ later) = fold applyProfileOp later (runProfileOps ops)"
  by (simp add: runProfileOps_def)

lemma runProfileOps_90_10:
  "map (\<lambda>kv. (fst kv, totalTransactions (snd kv), suspiciousTransactions (snd kv),
              recentSuspiciousActivity (snd kv), riskLevel (snd kv)))
     (runProfileOps [RecordOutcome e1 ''user123'' tx1 (scored 90),
                     RecordOutcome e2 ''user123'' tx2 (scored 10)])
     = [(''user123'', 2, 1, True, HIGH)]"
  by (simp add: runProfileOps_def updateUserProfile_def getOrCreate_def createUserProfile_def
        Let_def num_prop_scored)

text \<open>
  Claim C9. Take the store that any sequence of profile operations leaves on a fresh
  process. A call of \<open>updateUserProfile\<close> for a user stores for that user, and changes for
  no other, a profile that is measured against the one the store held for the user before
  the call (against zero counters and no flag, if it held none): \<open>totalTransactions\<close> is
  one more, \<open>suspiciousTransactions\<close> is one more exactly when the \<open>riskScore\<close> is above 70
  and is at most \<open>totalTransactions\<close>, \<open>recentSuspiciousActivity\<close> is true exactly when it
  was true before or the \<open>riskScore\<close> is above 70, and \<open>riskLevel\<close> is \<open>HIGH\<close> when the
  ratio of the two counters is above 0.3, \<open>MEDIUM\<close> when it is above 0.1 and \<open>LOW\<close>
  otherwise; and in every stored profile \<open>suspiciousTransactions\<close> is at most
  \<open>totalTransactions\<close>. Across calls: after any further sequence of operations the user's
  \<open>totalTransactions\<close> has grown by the number of verdicts the sequence recorded for the
  user, \<open>suspiciousTransactions\<close> by the number of those above 70, and the flag is set
  exactly when it was set or one of those was above 70; so the total never decreases, the
  suspicious count never exceeds it, a flag once set stays set (\<open>False \<le> True\<close> on
  booleans), and no profile is removed. From a fresh process the counters are the number of
  verdicts recorded for the user and the number of those above 70. Recording 90 and then 10
  for one user leaves two transactions, one suspicious, the flag set and the level \<open>HIGH\<close>.
\<close>

theorem profile_invariants:
  "(let S = runProfileOps ops;
        before = (case map_of S uid of
                    Some p \<Rightarrow> p
                  | None \<Rightarrow> \<lparr>userId_profile = uid, riskLevel = LOW, totalTransactions = 0,
                              suspiciousTransactions = 0, recentSuspiciousActivity = False,
                              createdAt = nowISO e, lastUpdated = nowISO e\<rparr>);
        S' = updateUserProfile e uid tx a S;
        risky = js_gt (num_prop a ''riskScore'') 70
    in \<exists>p'. map_of S' = (map_of S)(uid \<mapsto> p') \<and>
            totalTransactions p' = totalTransactions before + 1 \<and>
            suspiciousTransactions p' = suspiciousTransactions before + (if risky then 1 else 0) \<and>
            suspiciousTransactions p' \<le> totalTransactions p' \<and>
            recentSuspiciousActivity p' = (recentSuspiciousActivity before \<or> risky) \<and>
            riskLevel p' =
              (if 3 / 10 < (of_nat (suspiciousTransactions p') / of_nat (totalTransactions p') :: rat)
               then HIGH
               else if 1 / 10 < (of_nat (suspiciousTransactions p') / of_nat (totalTransactions p') :: rat)
               then MEDIUM
               else LOW) \<and>
            list_all (\<lambda>kv. suspiciousTransactions (snd kv) \<le> totalTransactions (snd kv)) S') \<and>
   (let S = runProfileOps ops;
        T = runProfileOps (ops @ later);
        outs = outcomesFor uid later;
        n = length (filter (\<lambda>a. js_gt (num_prop a ''riskScore'') 70) outs)
    in countersOf T uid =
         (fst (countersOf S uid) + length outs,
          fst (snd (countersOf S uid)) + n,
          snd (snd (countersOf S uid)) \<or> 0 < n) \<and>
       fst (countersOf S uid) \<le> fst (countersOf T uid) \<and>
       fst (snd (countersOf T uid)) \<le> fst (countersOf T uid) \<and>
       snd (snd (countersOf S uid)) \<le> snd (snd (countersOf T uid)) \<and>
       dom (map_of S) \<subseteq> dom (map_of T)) \<and>
   (let outs = outcomesFor uid ops;
        n = length (filter (\<lambda>a. js_gt (num_prop a ''riskScore'') 70) outs)
    in countersOf (runProfileOps ops) uid = (length outs, n, 0 < n)) \<and>
   map (\<lambda>kv. (fst kv, totalTransactions (snd kv), suspiciousTransactions (snd kv),
              recentSuspiciousActivity (snd kv), riskLevel (snd kv)))
     (runProfileOps [RecordOutcome e1 ''user123'' tx1 (scored 90),
                     RecordOutcome e2 ''user123'' tx2 (scored 10)])
     = [(''user123'', 2, 1, True, HIGH)]"
proof (intro conjI)
  let ?S = "runProfileOps ops"
  let ?before = "fst (getOrCreate e uid ?S)"
  let ?p = "recorded e a ?before"
  have inv: "list_all (\<lambda>kv. suspiciousTransactions (snd kv) \<le> totalTransactions (snd kv)) ?S"
    by (rule runProfileOps_counts)
  have m: "map_of (updateUserProfile e uid tx a ?S) = (map_of ?S)(uid \<mapsto> ?p)"
    by (simp add: updateUserProfile_recorded update_conv' getOrCreate_map_of)
  have before: "suspiciousTransactions ?before \<le> totalTransactions ?before"
    using getOrCreate_counts(1) [OF inv] .
  have le: "suspiciousTransactions ?p \<le> totalTransactions ?p"
    using before by (rule recorded_counts)
  have all: "list_all (\<lambda>kv. suspiciousTransactions (snd kv) \<le> totalTransactions (snd kv))
               (updateUserProfile e uid tx a ?S)"
    using inv by (rule updateUserProfile_counts)
  note fields = recorded_fields [of e a ?before] recorded_riskLevel [of e a ?before]
  have "\<exists>p'. map_of (updateUserProfile e uid tx a ?S) = (map_of ?S)(uid \<mapsto> p') \<and>
            totalTransactions p' = totalTransactions ?before + 1 \<and>
            suspiciousTransactions p' = suspiciousTransactions ?before
              + (if js_gt (num_prop a ''riskScore'') 70 then 1 else 0) \<and>
            suspiciousTransactions p' \<le> totalTransactions p' \<and>
            recentSuspiciousActivity p' = (recentSuspiciousActivity ?before \<or> js_gt (num_prop a ''riskScore'') 70) \<and>
            riskLevel p' =
              (if 3 / 10 < (of_nat (suspiciousTransactions p') / of_nat (totalTransactions p') :: rat)
               then HIGH
               else if 1 / 10 < (of_nat (suspiciousTransactions p') / of_nat (totalTransactions p') :: rat)
               then MEDIUM
               else LOW) \<and>
            list_all (\<lambda>kv. suspiciousTransactions (snd kv) \<le> totalTransactions (snd kv))
              (updateUserProfile e uid tx a ?S)"
    apply (rule exI [where x = "?p"])
    apply (intro conjI)
          apply (rule m)
         apply (rule fields(1))
        apply (rule fields(2))
       apply (rule le)
      apply (rule fields(3))
     apply (rule fields(4))
    apply (rule all)
    done
  then show "let S = runProfileOps ops;
        before = (case map_of S uid of
                    Some p \<Rightarrow> p
                  | None \<Rightarrow> \<lparr>userId_profile = uid, riskLevel = LOW, totalTransactions = 0,
                              suspiciousTransactions = 0, recentSuspiciousActivity = False,
                              createdAt = nowISO e, lastUpdated = nowISO e\<rparr>);
        S' = updateUserProfile e uid tx a S;
        risky = js_gt (num_prop a ''riskScore'') 70
    in \<exists>p'. map_of S' = (map_of S)(uid \<mapsto> p') \<and>
            totalTransactions p' = totalTransactions before + 1 \<and>
            suspiciousTransactions p' = suspiciousTransactions before + (if risky then 1 else 0) \<and>
            suspiciousTransactions p' \<le> totalTransactions p' \<and>
            recentSuspiciousActivity p' = (recentSuspiciousActivity before \<or> risky) \<and>
            riskLevel p' =
              (if 3 / 10 < (of_nat (suspiciousTransactions p') / of_nat (totalTransactions p') :: rat)
               then HIGH
               else if 1 / 10 < (of_nat (suspiciousTransactions p') / of_nat (totalTransactions p') :: rat)
               then MEDIUM
               else LOW) \<and>
            list_all (\<lambda>kv. suspiciousTransactions (snd kv) \<le> totalTransactions (snd kv)) S'"
    unfolding Let_def getOrCreate_fst .
next
  let ?S = "runProfileOps ops"
  let ?T = "runProfileOps (ops @ later)"
  let ?outs = "outcomesFor uid later"
  let ?n = "length (filter (\<lambda>a. js_gt (num_prop a ''riskScore'') 70) ?outs)"
  have c: "countersOf ?T uid =
         (fst (countersOf ?S uid) + length ?outs,
          fst (snd (countersOf ?S uid)) + ?n,
          snd (snd (countersOf ?S uid)) \<or> 0 < ?n)"
    unfolding runProfileOps_append by (rule countersOf_fold)
  have inv: "list_all (\<lambda>kv. suspiciousTransactions (snd kv) \<le> totalTransactions (snd kv)) ?T"
    by (rule runProfileOps_counts)
  have le: "fst (snd (countersOf ?T uid)) \<le> fst (countersOf ?T uid)"
  proof (cases "map_of ?T uid")
    case None
    then show ?thesis by (simp add: countersOf_def)
  next
    case (Some q)
    with list_all_map_of [OF inv Some] show ?thesis by (simp add: countersOf_def)
  qed
  have d: "dom (map_of ?S) \<subseteq> dom (map_of ?T)"
    unfolding runProfileOps_append by (rule fold_applyProfileOp_keeps)
  have mono: "fst (countersOf ?S uid) \<le> fst (countersOf ?T uid)"
    by (simp only: c fst_conv le_add1)
  have sticky: "snd (snd (countersOf ?S uid)) \<le> snd (snd (countersOf ?T uid))"
    by (simp add: c le_bool_def)
  show "let S = runProfileOps ops;
        T = runProfileOps (ops @ later);
        outs = outcomesFor uid later;
        n = length (filter (\<lambda>a. js_gt (num_prop a ''riskScore'') 70) outs)
    in countersOf T uid =
         (fst (countersOf S uid) + length outs,
          fst (snd (countersOf S uid)) + n,
          snd (snd (countersOf S uid)) \<or> 0 < n) \<and>
       fst (countersOf S uid) \<le> fst (countersOf T uid) \<and>
       fst (snd (countersOf T uid)) \<le> fst (countersOf T uid) \<and>
       snd (snd (countersOf S uid)) \<le> snd (snd (countersOf T uid)) \<and>
       dom (map_of S) \<subseteq> dom (map_of T)"
    unfolding Let_def using c mono le sticky d by blast
next
  have "countersOf (fold applyProfileOp ops []) uid =
     (length (outcomesFor uid ops),
      length (filter (\<lambda>a. js_gt (num_prop a ''riskScore'') 70) (outcomesFor uid ops)),
      0 < length (filter (\<lambda>a. js_gt (num_prop a ''riskScore'') 70) (outcomesFor uid ops)))"
    unfolding countersOf_fold by (simp add: countersOf_def)
  then show "let outs = outcomesFor uid ops;
        n = length (filter (\<lambda>a. js_gt (num_prop a ''riskScore'') 70) outs)
    in countersOf (runProfileOps ops) uid = (length outs, n, 0 < n)"
    by (simp only: Let_def runProfileOps_def)
next
  show "map (\<lambda>kv. (fst kv, totalTransactions (snd kv), suspiciousTransactions (snd kv),
              recentSuspiciousActivity (snd kv), riskLevel (snd kv)))
     (runProfileOps [RecordOutcome e1 ''user123'' tx1 (scored 90),
                     RecordOutcome e2 ''user123'' tx2 (scored 10)])
     = [(''user123'', 2, 1, True, HIGH)]"
    by (rule runProfileOps_90_10)
qed

section \<open>Properties of the statistics\<close>

lemma enhance_riskScore:
  "map_of (enhanceAnalysis e a tx pre) ''riskScore'' = map_of a ''riskScore''"
  by (simp add: enhanceAnalysis_def Let_def update_conv')

lemma performFraudAnalysis_score_finite:
  assumes "performFraudAnalysis e reply tx s = (Inr a, s')"
  shows "is_finite (num_prop a ''riskScore'')"
proof (cases "\<exists>name. merchant tx = JStr name")
  case False
  then have "\<forall>name. merchant tx \<noteq> JStr name" by simp
  from performFraudAnalysis_throws [OF this, of e reply s] assms show ?thesis by simp
next
  case True
  then obtain name where name: "merchant tx = JStr name" by blast
  show ?thesis
  proof (cases "\<exists>v. reply = Parsed v \<and> isValidAnalysis v = Inr True")
    case True
    then obtain v where v: "reply = Parsed v" "isValidAnalysis v = Inr True" by blast
    from v(2) obtain b r where b: "v = JObj b" "map_of b ''riskScore'' = Some (JNum (Fin r))"
      unfolding isValidAnalysis_iff by blast
    from calculatePreAnalysisRisk_string [OF name] obtain pre where
      "calculatePreAnalysisRisk e tx
           (filter (\<lambda>t. userId t = userId tx) (transactionHistory s))
           (fst (getOrCreate e (userId tx) (userRiskProfiles s))) = Inr pre"
      by blast
    with v b have "fst (performFraudAnalysis e (Parsed (JObj b)) tx s) = Inr (enhanceAnalysis e b tx pre)"
      by (simp add: performFraudAnalysis_accepted del: isValidAnalysis.simps)
    with v b assms have "a = enhanceAnalysis e b tx pre" by simp
    with b show ?thesis by (simp add: num_prop_def enhance_riskScore is_finite_def)
  next
    case False
    then have "fst (performFraudAnalysis e reply tx s) = generateFallbackAnalysis e tx"
      by (simp add: fallback_returned_iff [OF name])
    with assms generateFallbackAnalysis_string [OF name, of e]
    obtain risky where "a = fallbackVerdict e tx risky" by simp
    then show ?thesis by (simp add: num_prop_def fallback_riskScore is_finite_def)
  qed
qed

lemma analysis_ledgerRecord: "analysis (ledgerRecord tx a) = a"
  by (simp add: ledgerRecord_def)

lemma list_all_drop: "list_all P xs \<Longrightarrow> list_all P (drop n xs)"
  by (auto simp add: list_all_iff dest: in_set_dropD)

lemma tryBlock_history: "transactionHistory (snd (tryBlock e reply tx s)) = transactionHistory s"
  by (simp add: tryBlock_def Let_def
        split: prod.split sum.split oracle_reply.split bool.split jsval.split)

lemma performFraudAnalysis_history:
  "transactionHistory (snd (performFraudAnalysis e reply tx s)) = transactionHistory s"
  using tryBlock_history [of e reply tx s]
  by (cases "tryBlock e reply tx s") (auto simp add: performFraudAnalysis_def split: sum.split)

lemma analyzeFraud_scores_finite:
  assumes "list_all (\<lambda>t. is_finite (num_prop (analysis t) ''riskScore'')) (transactionHistory s)"
  shows "list_all (\<lambda>t. is_finite (num_prop (analysis t) ''riskScore''))
           (transactionHistory (snd (analyzeFraud e reply tx s)))"
proof (cases "validateTransaction tx = []")
  case False
  with assms show ?thesis by (simp add: analyzeFraud_def)
next
  case True
  obtain r s' where r: "performFraudAnalysis e reply tx s = (r, s')"
    by (cases "performFraudAnalysis e reply tx s")
  from performFraudAnalysis_history [of e reply tx s] r
  have h: "transactionHistory s' = transactionHistory s" by simp
  show ?thesis
  proof (cases r)
    case (Inl err)
    with True r h assms show ?thesis by (simp add: analyzeFraud_def)
  next
    case (Inr a)
    with r have ra: "performFraudAnalysis e reply tx s = (Inr a, s')" by simp
    have "list_all (\<lambda>t. is_finite (num_prop (analysis t) ''riskScore''))
            (transactionHistory s' @ [ledgerRecord tx a])"
      using assms h performFraudAnalysis_score_finite [OF ra] by (simp add: analysis_ledgerRecord)
    then show ?thesis
      using True ra by (simp add: analyzeFraud_def Let_def list_all_drop)
  qed
qed

lemma runRequests_scores_finite:
  "list_all (\<lambda>t. is_finite (num_prop (analysis t) ''riskScore''))
     (transactionHistory (runRequests reqs))"
proof -
  have "list_all (\<lambda>t. is_finite (num_prop (analysis t) ''riskScore'')) (transactionHistory s) \<Longrightarrow>
        list_all (\<lambda>t. is_finite (num_prop (analysis t) ''riskScore''))
          (transactionHistory
             (fold (\<lambda>req s. snd (analyzeFraud (fst req) (fst (snd req)) (snd (snd req)) s)) reqs s))"
    for s
    by (induction reqs arbitrary: s) (simp_all add: analyzeFraud_scores_finite)
  then show ?thesis by (simp add: runRequests_def emptyState_def)
qed

lemma foldl_js_add_finite:
  "list_all (\<lambda>t. is_finite (num_prop (analysis t) ''riskScore'')) h \<Longrightarrow> is_finite acc \<Longrightarrow>
   is_finite (foldl (\<lambda>sum t. js_add sum (num_prop (analysis t) ''riskScore'')) acc h)"
proof (induction h arbitrary: acc)
  case Nil
  then show ?case by simp
next
  case (Cons t h)
  from Cons.prems have "is_finite (js_add acc (num_prop (analysis t) ''riskScore''))"
    by (cases acc; cases "num_prop (analysis t) ''riskScore''") (simp_all add: is_finite_def)
  with Cons show ?case by simp
qed

lemma average_finite:
  assumes "list_all (\<lambda>t. is_finite (num_prop (analysis t) ''riskScore'')) (transactionHistory s)"
  shows "is_finite (averageRiskScore (getStats s))"
proof (cases "transactionHistory s = []")
  case True
  then show ?thesis by (simp add: getStats_def is_finite_def)
next
  case False
  have "is_finite (foldl (\<lambda>sum t. js_add sum (num_prop (analysis t) ''riskScore'')) (Fin 0)
                     (transactionHistory s))"
    using assms by (rule foldl_js_add_finite) (simp add: is_finite_def)
  then obtain x where "foldl (\<lambda>sum t. js_add sum (num_prop (analysis t) ''riskScore'')) (Fin 0)
                     (transactionHistory s) = Fin x"
    by (auto simp add: is_finite_def split: number.splits)
  with False show ?thesis by (simp add: getStats_def Let_def is_finite_def)
qed

text \<open>
  Claim C10. With an empty ledger the statistics report zero transactions, zero for each
  of the three statuses, zero unique users and an average risk score of 0. The division by
  the number of records is made only when there is a record: on the ledger of every state
  the route can reach, and on every ledger whose verdicts carry finite scores, the average
  is a finite number, never \<open>NaN\<close> and never an infinity.
\<close>

theorem getStats_total:
  "(let st = getStats (s\<lparr>transactionHistory := []\<rparr>)
    in totalTransactions_stats st = 0 \<and> approvedTransactions st = 0 \<and>
       flaggedTransactions st = 0 \<and> deniedTransactions st = 0 \<and>
       averageRiskScore st = Fin 0 \<and> uniqueUsers st = 0) \<and>
   is_finite (averageRiskScore (getStats (runRequests reqs))) \<and>
   (list_all (\<lambda>t. is_finite (num_prop (analysis t) ''riskScore'')) (transactionHistory s) \<longrightarrow>
      is_finite (averageRiskScore (getStats s)))"
proof (intro conjI impI)
  show "let st = getStats (s\<lparr>transactionHistory := []\<rparr>)
    in totalTransactions_stats st = 0 \<and> approvedTransactions st = 0 \<and>
       flaggedTransactions st = 0 \<and> deniedTransactions st = 0 \<and>
       averageRiskScore st = Fin 0 \<and> uniqueUsers st = 0"
    by (simp add: getStats_def)
  show "is_finite (averageRiskScore (getStats (runRequests reqs)))"
    using runRequests_scores_finite by (rule average_finite)
  assume "list_all (\<lambda>t. is_finite (num_prop (analysis t) ''riskScore'')) (transactionHistory s)"
  then show "is_finite (averageRiskScore (getStats s))" by (rule average_finite)
qed

theorem getStats_total_witness:
  "list_all (\<lambda>t. is_finite (num_prop (analysis t) ''riskScore'')) (transactionHistory exampleLedger) \<and>
   is_finite (averageRiskScore (getStats exampleLedger)) \<and>
   averageRiskScore (getStats exampleLedger) = Fin (135 / 2)"
proof -
  have h: "list_all (\<lambda>t. is_finite (num_prop (analysis t) ''riskScore''))
             (transactionHistory exampleLedger)"
    by (simp add: exampleLedger_def analysis_ledgerRecord num_prop_scored is_finite_def)
  from getStats_total [of exampleLedger] h
  have "is_finite (averageRiskScore (getStats exampleLedger))" by blast
  moreover have "averageRiskScore (getStats exampleLedger) = Fin (135 / 2)"
    by (simp add: getStats_def exampleLedger_def analysis_ledgerRecord num_prop_scored)
  ultimately show ?thesis using h by blast
qed

section \<open>The fallback path against the oracle path\<close>

lemma enhance_metadata:
  "map_of (enhanceAnalysis e a tx pre) ''timestamp'' = Some (JStr (nowISO e))"
  "map_of (enhanceAnalysis e a tx pre) ''transactionId'' = Some (JStr (generateTransactionId e))"
  "map_of (enhanceAnalysis e a tx pre) ''processingTime'' = Some (JNum (Fin (random e * 500 + 100)))"
  "map_of (enhanceAnalysis e a tx pre) ''preAnalysisRisk'' = Some (JObj pre)"
  "map_of (enhanceAnalysis e a tx pre) ''version'' = Some (JStr ''2.1'')"
  by (simp_all add: enhanceAnalysis_def Let_def update_conv')

lemma num_prop_exampleFields: "num_prop (exampleFields r st f) ''riskScore'' = Fin r"
  by (simp add: exampleFields_def num_prop_def)

lemma num_prop_enhance: "num_prop (enhanceAnalysis e a tx pre) ''riskScore'' = num_prop a ''riskScore''"
  by (simp add: num_prop_def enhance_riskScore)

lemma tryBlock_accepted_stores:
  assumes "isValidAnalysis (JObj a) = Inr True"
    and "calculatePreAnalysisRisk e tx
           (filter (\<lambda>t. userId t = userId tx) (transactionHistory s))
           (fst (getOrCreate e (userId tx) (userRiskProfiles s))) = Inr pre"
  shows "snd (tryBlock e (Parsed (JObj a)) tx s) =
     s\<lparr>userRiskProfiles :=
          updateUserProfile e (userId tx) tx (enhanceAnalysis e a tx pre)
            (snd (getOrCreate e (userId tx) (userRiskProfiles s))),
        fraudPatterns :=
          updateFraudPatterns e tx (enhanceAnalysis e a tx pre) (fraudPatterns s)\<rparr>"
  using assms
  by (cases "getOrCreate e (userId tx) (userRiskProfiles s)")
     (simp add: tryBlock_def Let_def del: isValidAnalysis.simps)

lemma performFraudAnalysis_accepted_stores:
  assumes "isValidAnalysis (JObj a) = Inr True"
    and "calculatePreAnalysisRisk e tx
           (filter (\<lambda>t. userId t = userId tx) (transactionHistory s))
           (fst (getOrCreate e (userId tx) (userRiskProfiles s))) = Inr pre"
  shows "snd (performFraudAnalysis e (Parsed (JObj a)) tx s) =
     s\<lparr>userRiskProfiles :=
          updateUserProfile e (userId tx) tx (enhanceAnalysis e a tx pre)
            (snd (getOrCreate e (userId tx) (userRiskProfiles s))),
        fraudPatterns :=
          updateFraudPatterns e tx (enhanceAnalysis e a tx pre) (fraudPatterns s)\<rparr>"
  using tryBlock_accepted_stores [OF assms] tryBlock_accepted [OF assms]
  by (cases "tryBlock e (Parsed (JObj a)) tx s") (simp add: performFraudAnalysis_def)

lemma getOrCreate_found: "map_of ps uid = Some p \<Longrightarrow> getOrCreate e uid ps = (p, ps)"
  by (simp add: getOrCreate_def)

lemma update_fresh_profile:
  assumes "js_gt (num_prop a ''riskScore'') 70"
  shows "map (\<lambda>kv. (fst kv, totalTransactions (snd kv), suspiciousTransactions (snd kv),
                     recentSuspiciousActivity (snd kv)))
           (updateUserProfile e uid tx a (snd (getOrCreate e' uid [])))
         = [(uid, 1, 1, True)]"
proof -
  have found: "getOrCreate e uid (snd (getOrCreate e' uid [])) =
      (fst (getOrCreate e' uid []), snd (getOrCreate e' uid []))"
    by (rule getOrCreate_found) (simp add: getOrCreate_empty)
  show ?thesis
    using assms
    by (simp add: updateUserProfile_recorded found)
       (simp add: getOrCreate_empty recorded_fields)
qed

lemma record_fresh_pattern:
  assumes "js_gt (num_prop a ''riskScore'') 80"
  shows "map (\<lambda>kv. (fst kv, count (snd kv))) (updateFraudPatterns e tx a []) = [(patternKey tx, 1)]"
  using assms by (simp add: updateFraudPatterns_def Let_def)

text \<open>
  Claim C2, evaluated on the code. On the fallback path \<open>performFraudAnalysis\<close> returns
  without calling \<open>enhanceAnalysis\<close>, \<open>updateUserProfile\<close> or \<open>updateFraudPatterns\<close>: the
  pattern store is left as it was, and the profile store is changed only by the lazy
  creation of a profile with zero counters at the start of the call. For an amount of 6000
  at \<open>Casino Royale\<close> at hour 2 on freshly started stores, the fallback scores 100, and
  still the user's profile counts no transaction, no suspicious one, has no flag set, and
  no pattern is recorded; an accepted reply of the oracle with the same score leaves one
  transaction, one suspicious one, the flag set and one pattern.
\<close>

theorem fallback_path_skips_the_stores:
  "fraudPatterns (snd (performFraudAnalysis e Failed tx s)) = fraudPatterns s \<and>
   userRiskProfiles (snd (performFraudAnalysis e Failed tx s))
     = snd (getOrCreate e (userId tx) (userRiskProfiles s)) \<and>
   (let r = performFraudAnalysis (exampleEnv 2) Failed (exampleTx 6000 ''Casino Royale'') emptyState;
        verdict = fallbackVerdict (exampleEnv 2) (exampleTx 6000 ''Casino Royale'') True
    in generateFallbackAnalysis (exampleEnv 2) (exampleTx 6000 ''Casino Royale'') = Inr verdict \<and>
       fst r = Inr verdict \<and>
       num_prop verdict ''riskScore'' = Fin 100 \<and>
       map (\<lambda>kv. (fst kv, count (snd kv))) (fraudPatterns (snd r)) = [] \<and>
       map (\<lambda>kv. (fst kv, totalTransactions (snd kv), suspiciousTransactions (snd kv),
                   recentSuspiciousActivity (snd kv)))
           (userRiskProfiles (snd r))
         = [(''user123'', 0, 0, False)]) \<and>
   (let r = performFraudAnalysis (exampleEnv 2)
              (Parsed (JObj (exampleFields 100 ''Denied'' extraFactors)))
              (exampleTx 6000 ''Casino Royale'') emptyState
    in map (\<lambda>kv. (fst kv, count (snd kv))) (fraudPatterns (snd r))
         = [(patternKey (exampleTx 6000 ''Casino Royale''), 1)] \<and>
       map (\<lambda>kv. (fst kv, totalTransactions (snd kv), suspiciousTransactions (snd kv),
                   recentSuspiciousActivity (snd kv)))
           (userRiskProfiles (snd r))
         = [(''user123'', 1, 1, True)])"
proof (intro conjI)
  show "fraudPatterns (snd (performFraudAnalysis e Failed tx s)) = fraudPatterns s"
    by (simp add: performFraudAnalysis_Failed)
  show "userRiskProfiles (snd (performFraudAnalysis e Failed tx s))
     = snd (getOrCreate e (userId tx) (userRiskProfiles s))"
    by (simp add: performFraudAnalysis_Failed)
  show "let r = performFraudAnalysis (exampleEnv 2) Failed (exampleTx 6000 ''Casino Royale'') emptyState;
        verdict = fallbackVerdict (exampleEnv 2) (exampleTx 6000 ''Casino Royale'') True
    in generateFallbackAnalysis (exampleEnv 2) (exampleTx 6000 ''Casino Royale'') = Inr verdict \<and>
       fst r = Inr verdict \<and>
       num_prop verdict ''riskScore'' = Fin 100 \<and>
       map (\<lambda>kv. (fst kv, count (snd kv))) (fraudPatterns (snd r)) = [] \<and>
       map (\<lambda>kv. (fst kv, totalTransactions (snd kv), suspiciousTransactions (snd kv),
                   recentSuspiciousActivity (snd kv)))
           (userRiskProfiles (snd r))
         = [(''user123'', 0, 0, False)]"
    unfolding Let_def
    by (simp add: performFraudAnalysis_Failed fallback_example_casino num_prop_def
        fallback_riskScore score_example_casino emptyState_def getOrCreate_empty exampleTx_userId)
  have score: "js_gt (num_prop (enhanceAnalysis (exampleEnv 2) (exampleFields 100 ''Denied'' extraFactors)
                        (exampleTx 6000 ''Casino Royale'') pre) ''riskScore'') c = (c < 100)" for pre c
    by (simp add: num_prop_enhance num_prop_exampleFields)
  have pre: "calculatePreAnalysisRisk (exampleEnv 2) (exampleTx 6000 ''Casino Royale'')
           (filter (\<lambda>t. userId t = userId (exampleTx 6000 ''Casino Royale''))
              (transactionHistory emptyState))
           (fst (getOrCreate (exampleEnv 2) (userId (exampleTx 6000 ''Casino Royale''))
                   (userRiskProfiles emptyState)))
        = Inr [(''amountAnomaly'', JNum (Fin 0)),
               (''locationAnomaly'', JNum (Fin 0)),
               (''timeAnomaly'', JNum (Fin 40)),
               (''velocityRisk'', JNum (Fin 0)),
               (''merchantRisk'', JNum (Fin 80))]"
    by (simp add: emptyState_def pre_example_casino)
  show "let r = performFraudAnalysis (exampleEnv 2)
              (Parsed (JObj (exampleFields 100 ''Denied'' extraFactors)))
              (exampleTx 6000 ''Casino Royale'') emptyState
    in map (\<lambda>kv. (fst kv, count (snd kv))) (fraudPatterns (snd r))
         = [(patternKey (exampleTx 6000 ''Casino Royale''), 1)] \<and>
       map (\<lambda>kv. (fst kv, totalTransactions (snd kv), suspiciousTransactions (snd kv),
                   recentSuspiciousActivity (snd kv)))
           (userRiskProfiles (snd r))
         = [(''user123'', 1, 1, True)]"
    unfolding Let_def performFraudAnalysis_accepted_stores [OF exampleFields_valid pre]
    by (simp add: emptyState_def exampleTx_userId update_fresh_profile record_fresh_pattern score)
qed

text \<open>
  Claim C3, evaluated on the code. For a transaction whose merchant is a string, the
  verdict returned on the fallback path is the raw object of \<open>generateFallbackAnalysis\<close>,
  which \<open>enhanceAnalysis\<close> never sees: it has no \<open>timestamp\<close>, no \<open>transactionId\<close>, no
  \<open>processingTime\<close>, no \<open>preAnalysisRisk\<close> and no \<open>version\<close>. An enhanced verdict has all
  five, the identifier being the prefix \<open>TXN-\<close>, the clock's milliseconds and the random
  suffix.
\<close>

theorem fallback_verdict_lacks_metadata:
  "(let tx' = tx\<lparr>merchant := JStr name\<rparr>
    in \<exists>verdict.
         generateFallbackAnalysis e tx' = Inr verdict \<and>
         fst (performFraudAnalysis e Failed tx' s) = Inr verdict \<and>
         fst (performFraudAnalysis e Unparseable tx' s) = Inr verdict \<and>
         map_of verdict ''timestamp'' = None \<and>
         map_of verdict ''transactionId'' = None \<and>
         map_of verdict ''processingTime'' = None \<and>
         map_of verdict ''preAnalysisRisk'' = None \<and>
         map_of verdict ''version'' = None) \<and>
   map_of (enhanceAnalysis e a tx pre) ''timestamp'' = Some (JStr (nowISO e)) \<and>
   map_of (enhanceAnalysis e a tx pre) ''transactionId''
     = Some (JStr (''TXN-'' @ show_int (nowMillis e) @ ''-'' @ randomSuffix e)) \<and>
   map_of (enhanceAnalysis e a tx pre) ''processingTime'' = Some (JNum (Fin (random e * 500 + 100))) \<and>
   map_of (enhanceAnalysis e a tx pre) ''preAnalysisRisk'' = Some (JObj pre) \<and>
   map_of (enhanceAnalysis e a tx pre) ''version'' = Some (JStr ''2.1'')"
proof -
  let ?tx = "tx\<lparr>merchant := JStr name\<rparr>"
  let ?risky = "str_includes (toLowerCase name) ''casino''
                \<or> str_includes (toLowerCase name) ''betting''
                \<or> str_includes (toLowerCase name) ''crypto''"
  have g: "generateFallbackAnalysis e ?tx = Inr (fallbackVerdict e ?tx ?risky)"
    by (rule generateFallbackAnalysis_string) simp
  have "\<exists>verdict.
         generateFallbackAnalysis e ?tx = Inr verdict \<and>
         fst (performFraudAnalysis e Failed ?tx s) = Inr verdict \<and>
         fst (performFraudAnalysis e Unparseable ?tx s) = Inr verdict \<and>
         map_of verdict ''timestamp'' = None \<and>
         map_of verdict ''transactionId'' = None \<and>
         map_of verdict ''processingTime'' = None \<and>
         map_of verdict ''preAnalysisRisk'' = None \<and>
         map_of verdict ''version'' = None"
    by (intro exI [where x = "fallbackVerdict e ?tx ?risky"])
       (simp add: performFraudAnalysis_Failed performFraudAnalysis_Unparseable g fallback_no_metadata)
  then show ?thesis
    unfolding Let_def
    by (simp add: enhance_metadata generateTransactionId_def)
qed

end
